theory Spec2Isabelle
  imports Main "HOL-Library.Multiset" "HOL-Library.Char_ord" "HOL-Library.List_Lexorder"
begin

section \<open>StudyFlow: the application state of script.js\<close>

text \<open>
  The program keeps one global object \<^verbatim>\<open>state\<close> and mutates it from event handlers.
  Every handler is modelled as a function from the state to the updated state.
  Numbers that the code only ever counts with (ids, streak count, seconds, hours) are
  \<open>int\<close>; the code never reaches the range where a JavaScript double stops being exact.
  A field that holds \<^verbatim>\<open>null\<close> or a string is a \<open>string option\<close>.
  A date is the string \<^verbatim>\<open>YYYY-MM-DD\<close> that \<^verbatim>\<open>toISOString().slice(0, 10)\<close> yields, and
  \<^verbatim>\<open><\<close> on two such strings is the lexicographic order on characters.
  A string is the sequence of the bytes of its UTF-8 encoding, so a character outside
  ASCII takes two to four elements.
\<close>

record task =
  task_id :: int
  title :: string
  subject :: string
  category :: string
  deadline :: string
  priority :: string
  status :: string

record goal =
  totalGoal :: int
  hoursLogged :: int

record streak_state =
  count :: int
  lastCompletionDate :: "string option"
  lastRewardedDay :: "string option"

text \<open>
  The browser's interval timers: \<open>intervalId\<close> is the handle the code stores,
  \<open>timers\<close> the handles that are still active and \<open>nextTimer\<close> the next fresh handle.
  Only the countdown intervals created by \<^verbatim>\<open>startTimer\<close> are tracked.
\<close>

record pomodoro_state =
  time :: int
  mode :: string
  running :: bool
  intervalId :: "nat option"

record academic_profile =
  major :: string
  level :: string

text \<open>
  What a handler does to the outside, in the order it happens: a modal shown with its title
  and body, the text written to the streak statistic, and a call of \<^verbatim>\<open>saveState\<close>.
\<close>

datatype effect =
  ShowModal string string
  | StatStreak int
  | SaveState

text \<open>The document that \<^verbatim>\<open>saveState\<close> writes under the storage key.\<close>

record persisted =
  p_tasks :: "task list"
  p_notes :: string
  p_theme :: string
  p_goals :: "string \<rightharpoonup> goal"
  p_userName :: string
  p_streak :: streak_state
  p_academicProfile :: academic_profile

text \<open>
  Besides the fields of \<^verbatim>\<open>state\<close>, the model carries the one piece of the page that the
  code reads back (the label of the reset button), the browser's active interval
  handles, the content of local storage, and the trace of effects. The calendar's view fields
  (\<^verbatim>\<open>currentCalendarDate\<close>, \<^verbatim>\<open>selectedDate\<close>) are left out: no modelled handler reads them.
  The field \<^verbatim>\<open>notes\<close> is \<open>notesText\<close> and a task's \<^verbatim>\<open>id\<close> is \<open>task_id\<close>.
\<close>

record state =
  tasks :: "task list"
  notesText :: string
  theme :: string
  goals :: "string \<rightharpoonup> goal"
  streak :: streak_state
  pomodoro :: pomodoro_state
  userName :: string
  academicProfile :: academic_profile
  resetBtnText :: string
  timers :: "nat list"
  nextTimer :: nat
  storage :: "persisted option"
  effects :: "effect list"

text \<open>
  The two readings of the system clock that \<^verbatim>\<open>updateStreak\<close> takes: the date string of now,
  and the date string of the \<^verbatim>\<open>Date\<close> whose day of the month was lowered by one.
\<close>

record clock =
  today :: string
  yesterdayString :: string

definition STREAK_MILESTONES :: "int list" where
  "STREAK_MILESTONES = [5, 10, 20, 50, 100]"

definition initialStreak :: streak_state where
  "initialStreak = \<lparr>count = 0, lastCompletionDate = None, lastRewardedDay = None\<rparr>"

text \<open>
  The initial \<^verbatim>\<open>state\<close> literal. The label of the reset button comes from the page's
  markup, which is not part of the script, and is a parameter.
\<close>

definition initialState :: "string \<Rightarrow> state" where
  "initialState resetLabel =
     \<lparr>tasks = [], notesText = [], theme = ''light'', goals = Map.empty,
      streak = initialStreak,
      pomodoro = \<lparr>time = 1500, mode = ''study'', running = False, intervalId = None\<rparr>,
      userName = [],
      academicProfile = \<lparr>major = [], level = ''undergrad''\<rparr>,
      resetBtnText = resetLabel, timers = [], nextTimer = 0, storage = None,
      effects = []\<rparr>"

subsection \<open>Utilities\<close>

text \<open>JavaScript truthiness of a value that is \<^verbatim>\<open>null\<close> or a string.\<close>

fun truthy :: "string option \<Rightarrow> bool" where
  "truthy None = False"
| "truthy (Some d) = (d \<noteq> [])"

text \<open>The decimal text of an integer, as a template literal prints it.\<close>

fun digitsOf :: "nat \<Rightarrow> string" where
  "digitsOf n =
     (if n < 10 then [char_of (48 + n)]
      else digitsOf (n div 10) @ [char_of (48 + n mod 10)])"

declare digitsOf.simps [simp del]

definition numToString :: "int \<Rightarrow> string" where
  "numToString i = (if i < 0 then CHR ''-'' # digitsOf (nat (- i)) else digitsOf (nat i))"

definition showModal :: "string \<Rightarrow> string \<Rightarrow> state \<Rightarrow> state" where
  "showModal ttl body s = s\<lparr>effects := effects s @ [ShowModal ttl body]\<rparr>"

definition saveState :: "state \<Rightarrow> state" where
  "saveState s =
     s\<lparr>storage := Some \<lparr>p_tasks = tasks s, p_notes = notesText s, p_theme = theme s,
                           p_goals = goals s, p_userName = userName s, p_streak = streak s,
                           p_academicProfile = academicProfile s\<rparr>,
       effects := effects s @ [SaveState]\<rparr>"

subsection \<open>Streak\<close>

text \<open>The star of the milestone title, U+2B50 in UTF-8.\<close>

definition star :: string where
  "star = [char_of (226::nat), char_of (173::nat), char_of (144::nat)]"

definition milestoneTitle :: string where
  "milestoneTitle = star @ '' MILESTONE REACHED! '' @ star"

definition milestoneBody :: "int \<Rightarrow> string" where
  "milestoneBody milestone =
     ''You have maintained your study streak for an incredible **'' @ numToString milestone
     @ '' days**! Your dedication is inspiring. Keep crushing those goals!''"

definition checkStreakMilestones :: "int \<Rightarrow> string \<Rightarrow> state \<Rightarrow> state" where
  "checkStreakMilestones cnt tday s =
     (let lastRewarded = lastRewardedDay (streak s) in
      if lastRewarded \<noteq> Some tday then
        (case find (\<lambda>m. m = cnt) STREAK_MILESTONES of
           None \<Rightarrow> s
         | Some milestone \<Rightarrow>
             if milestone \<noteq> 0 then
               (let s1 = showModal milestoneTitle (milestoneBody milestone) s
                in s1\<lparr>streak := (streak s1)\<lparr>lastRewardedDay := Some tday\<rparr>\<rparr>)
             else s)
      else s)"

text \<open>
  The value of a call of \<^verbatim>\<open>checkStreakMilestones\<close>: the function has no \<^verbatim>\<open>return\<close> statement,
  so whatever it has done, the call evaluates to \<^verbatim>\<open>undefined\<close>, here \<open>None\<close>.
\<close>

definition checkStreakMilestones_value :: "int \<Rightarrow> string \<Rightarrow> state \<Rightarrow> int option" where
  "checkStreakMilestones_value cnt tday s = None"

text \<open>
  \<^verbatim>\<open>updateStreak(isTaskCompleted)\<close>. With \<open>True\<close> it records a completion, with \<open>False\<close> it is
  the check made when the application loads.
\<close>

definition updateStreak :: "clock \<Rightarrow> bool \<Rightarrow> state \<Rightarrow> state" where
  "updateStreak c isTaskCompleted s =
     (let lastDate = lastCompletionDate (streak s);
          s1 =
            (if isTaskCompleted then
               (let (s2, streakIncremented) =
                      (if lastDate = Some (today c) then (s, False)
                       else if truthy lastDate then
                         (if lastDate = Some (yesterdayString c)
                          then (s\<lparr>streak := (streak s)\<lparr>count := count (streak s) + 1\<rparr>\<rparr>, True)
                          else (s\<lparr>streak := (streak s)\<lparr>count := 1\<rparr>\<rparr>, True))
                       else (s\<lparr>streak := (streak s)\<lparr>count := 1\<rparr>\<rparr>, True));
                    s3 = s2\<lparr>streak := (streak s2)\<lparr>lastCompletionDate := Some (today c)\<rparr>\<rparr>
                in if streakIncremented
                   then checkStreakMilestones (count (streak s3)) (today c) s3
                   else s3)
             else if truthy lastDate then
               (if the lastDate < yesterdayString c
                then s\<lparr>streak := (streak s)\<lparr>count := 0, lastCompletionDate := None,
                                             lastRewardedDay := None\<rparr>\<rparr>
                else s)
             else s);
          s4 = s1\<lparr>effects := effects s1 @ [StatStreak (count (streak s1))]\<rparr>
      in saveState s4)"

text \<open>The two entry points the specification names.\<close>

definition recordCompletion :: "clock \<Rightarrow> state \<Rightarrow> state" where
  "recordCompletion c s = updateStreak c True s"

definition reconcileOnLoad :: "clock \<Rightarrow> state \<Rightarrow> state" where
  "reconcileOnLoad c s = updateStreak c False s"

subsection \<open>Pomodoro timer\<close>

text \<open>\<^verbatim>\<open>clearInterval\<close>: the handle stops being active; safe on \<^verbatim>\<open>null\<close> and on a stale handle.\<close>

definition clearInterval :: "nat option \<Rightarrow> state \<Rightarrow> state" where
  "clearInterval h s =
     (case h of None \<Rightarrow> s | Some i \<Rightarrow> s\<lparr>timers := removeAll i (timers s)\<rparr>)"

definition pauseTimer :: "state \<Rightarrow> state" where
  "pauseTimer s =
     (let s1 = clearInterval (intervalId (pomodoro s)) s
      in s1\<lparr>pomodoro := (pomodoro s1)\<lparr>running := False\<rparr>\<rparr>)"

definition modeDuration :: "string \<Rightarrow> int" where
  "modeDuration m =
     (if m = ''study'' then 1500
      else if m = ''short'' then 300
      else if m = ''long'' then 900
      else 0)"

definition setPomodoroMode :: "string \<Rightarrow> state \<Rightarrow> state" where
  "setPomodoroMode m s =
     (let s1 = pauseTimer s;
          s2 = s1\<lparr>pomodoro := (pomodoro s1)\<lparr>mode := m\<rparr>\<rparr>
      in s2\<lparr>pomodoro := (pomodoro s2)\<lparr>time := modeDuration m\<rparr>\<rparr>)"

definition nextMode :: "string \<Rightarrow> string" where
  "nextMode m =
     (if m = ''study'' then ''short''
      else if m = ''short'' \<or> m = ''long'' then ''study''
      else [])"

definition endMessage :: "string \<Rightarrow> string" where
  "endMessage m =
     (if m = ''study'' then ''Study session complete! Time for a short break. You earned it!''
      else if m = ''short'' \<or> m = ''long'' then ''Break over. Time to focus on the next task!''
      else [])"

definition handleTimerEnd :: "bool \<Rightarrow> state \<Rightarrow> state" where
  "handleTimerEnd manualSwitch s =
     (let nxt = nextMode (mode (pomodoro s));
          message = endMessage (mode (pomodoro s));
          s1 = (if \<not> manualSwitch then showModal ''Timer Done!'' message s else s)
      in setPomodoroMode nxt s1)"

text \<open>The function that \<^verbatim>\<open>startTimer\<close> hands to \<^verbatim>\<open>setInterval\<close>.\<close>

definition intervalCallback :: "state \<Rightarrow> state" where
  "intervalCallback s =
     (let s1 = s\<lparr>pomodoro := (pomodoro s)\<lparr>time := time (pomodoro s) - 1\<rparr>\<rparr>
      in if time (pomodoro s1) \<le> 0 then
           (let s2 = clearInterval (intervalId (pomodoro s1)) s1;
                s3 = s2\<lparr>pomodoro := (pomodoro s2)\<lparr>running := False\<rparr>\<rparr>;
                s4 = s3\<lparr>resetBtnText := ''Next Mode''\<rparr>
            in handleTimerEnd False s4)
         else s1)"

definition startTimer :: "state \<Rightarrow> state" where
  "startTimer s =
     (if running (pomodoro s) then s
      else
        (let s1 = s\<lparr>pomodoro := (pomodoro s)\<lparr>running := True\<rparr>\<rparr>;
             s2 = s1\<lparr>resetBtnText := ''Reset''\<rparr>;
             s3 = s2\<lparr>timers := timers s2 @ [nextTimer s2], nextTimer := Suc (nextTimer s2)\<rparr>
         in s3\<lparr>pomodoro := (pomodoro s3)\<lparr>intervalId := Some (nextTimer s2)\<rparr>\<rparr>))"

definition resetTimer :: "state \<Rightarrow> state" where
  "resetTimer s =
     (let s1 = pauseTimer s
      in if resetBtnText s1 = ''Next Mode'' then handleTimerEnd True s1
         else (setPomodoroMode (mode (pomodoro s1)) s1)\<lparr>resetBtnText := ''Reset''\<rparr>)"

text \<open>
  One second passing in the browser: an active countdown interval fires its callback;
  with no active interval nothing runs.
\<close>

definition tick :: "state \<Rightarrow> state" where
  "tick s = (if timers s = [] then s else intervalCallback s)"

definition toggleTheme :: "state \<Rightarrow> state" where
  "toggleTheme s =
     (let s1 = s\<lparr>theme := (if theme s = ''light'' then ''dark'' else ''light'')\<rparr>;
          s2 = setPomodoroMode (mode (pomodoro s1)) s1
      in saveState s2)"

subsection \<open>Tasks\<close>

text \<open>
  What \<^verbatim>\<open>renderTasks\<close> reads from the page (the search box and the status filter), and the
  engine's \<^verbatim>\<open>Array.prototype.sort\<close> with the comparator of \<^verbatim>\<open>renderTasks\<close>. The sort is a
  parameter: all that is assumed of it, where it matters, is that it permutes its argument.
\<close>

record view =
  searchQuery :: string
  filterStatus :: string
  sortTasks :: "task list \<Rightarrow> task list"

text \<open>
  \<^verbatim>\<open>renderTasks\<close> sorts \<^verbatim>\<open>filteredTasks\<close> in place. With no status filter and an empty search
  that array is \<^verbatim>\<open>state.tasks\<close> itself; otherwise \<^verbatim>\<open>filter\<close> has made a copy.
  The rest of the function writes to the page.
\<close>

definition renderTasks :: "view \<Rightarrow> state \<Rightarrow> state" where
  "renderTasks v s =
     (if filterStatus v \<noteq> ''all'' \<or> searchQuery v \<noteq> [] then s
      else s\<lparr>tasks := sortTasks v (tasks s)\<rparr>)"

definition getNextTaskId :: "state \<Rightarrow> int" where
  "getNextTaskId s =
     (if length (tasks s) > 0 then Max (set (map task_id (tasks s))) + 1 else 1)"

text \<open>
  The hidden field \<^verbatim>\<open>task-id\<close> of the task form as the handler reads it: empty, or a text
  that \<^verbatim>\<open>parseInt\<close> turns into a number, or one it turns into \<^verbatim>\<open>NaN\<close>.
\<close>

datatype id_field = EmptyField | Parsed int | NotANumber

record task_form =
  f_taskId :: id_field
  f_title :: string
  f_subject :: string
  f_category :: string
  f_deadline :: string
  f_priority :: string

text \<open>Assignment to the fields of the first element that satisfies \<open>P\<close>, the others untouched.\<close>

fun mapFirst :: "('a \<Rightarrow> bool) \<Rightarrow> ('a \<Rightarrow> 'a) \<Rightarrow> 'a list \<Rightarrow> 'a list" where
  "mapFirst P f [] = []"
| "mapFirst P f (x # xs) = (if P x then f x # xs else x # mapFirst P f xs)"

definition dquote :: string where
  "dquote = [char_of (34::nat)]"

definition submitTaskForm :: "view \<Rightarrow> task_form \<Rightarrow> state \<Rightarrow> state" where
  "submitTaskForm v f s =
     (let s1 =
            (case f_taskId f of
               EmptyField \<Rightarrow>
                 (let newTask = \<lparr>task_id = getNextTaskId s, title = f_title f,
                                  subject = f_subject f, category = f_category f,
                                  deadline = f_deadline f, priority = f_priority f,
                                  status = ''pending''\<rparr>;
                      s2 = s\<lparr>tasks := tasks s @ [newTask]\<rparr>
                  in showModal ''Task Added''
                       (''New task '' @ dquote @ f_title f @ dquote @ '' scheduled for ''
                        @ f_deadline f @ ''.'') s2)
             | NotANumber \<Rightarrow> s
             | Parsed n \<Rightarrow>
                 (case find (\<lambda>t. task_id t = n) (tasks s) of
                    None \<Rightarrow> s
                  | Some _ \<Rightarrow>
                      (let s2 = s\<lparr>tasks :=
                                    mapFirst (\<lambda>t. task_id t = n)
                                      (\<lambda>t. t\<lparr>title := f_title f, subject := f_subject f,
                                              category := f_category f,
                                              deadline := f_deadline f,
                                              priority := f_priority f\<rparr>)
                                      (tasks s)\<rparr>
                       in showModal ''Task Updated''
                            (''Task '' @ dquote @ f_title f @ dquote
                             @ '' has been successfully updated.'') s2)));
          s3 = saveState s1
      in renderTasks v s3)"

definition deleteTask :: "view \<Rightarrow> int \<Rightarrow> state \<Rightarrow> state" where
  "deleteTask v i s =
     (let s1 = s\<lparr>tasks := filter (\<lambda>t. task_id t \<noteq> i) (tasks s)\<rparr>;
          s2 = saveState s1;
          s3 = renderTasks v s2
      in showModal ''Task Deleted''
           ''The task has been permanently removed from your schedule.'' s3)"

definition toggleTaskStatus :: "clock \<Rightarrow> view \<Rightarrow> int \<Rightarrow> state \<Rightarrow> state" where
  "toggleTaskStatus c v i s =
     (case find (\<lambda>t. task_id t = i) (tasks s) of
        None \<Rightarrow> s
      | Some tsk \<Rightarrow>
          (let wasPending = (status tsk = ''pending'');
               newStatus = (if wasPending then ''completed'' else ''pending'');
               s1 = s\<lparr>tasks := mapFirst (\<lambda>t. task_id t = i)
                                   (\<lambda>t. t\<lparr>status := newStatus\<rparr>) (tasks s)\<rparr>;
               s2 = (if newStatus = ''completed'' then updateStreak c True s1 else s1);
               s3 = saveState s2;
               s4 = renderTasks v s3
           in showModal ''Status Update''
                (''Task '' @ dquote @ title tsk @ dquote @ '' marked as '' @ newStatus @ ''.'')
                s4))"

subsection \<open>Settings, goals and notes\<close>

text \<open>
  \<^verbatim>\<open>String.prototype.trim\<close> removes white space and line terminators from both ends. These
  are the characters it removes, each as the bytes of its UTF-8 encoding: U+0009 to U+000D,
  U+0020, U+00A0, U+1680, U+2000 to U+200A, U+2028, U+2029, U+202F, U+205F, U+3000 and
  U+FEFF.
\<close>

definition whiteSpace :: "string list" where
  "whiteSpace =
     [[CHR 0x09], [CHR 0x0A], [CHR 0x0B], [CHR 0x0C], [CHR 0x0D], [CHR 0x20],
      [CHR 0xC2, CHR 0xA0], [CHR 0xE1, CHR 0x9A, CHR 0x80],
      [CHR 0xE2, CHR 0x80, CHR 0x80], [CHR 0xE2, CHR 0x80, CHR 0x81], [CHR 0xE2, CHR 0x80, CHR 0x82],
      [CHR 0xE2, CHR 0x80, CHR 0x83], [CHR 0xE2, CHR 0x80, CHR 0x84], [CHR 0xE2, CHR 0x80, CHR 0x85],
      [CHR 0xE2, CHR 0x80, CHR 0x86], [CHR 0xE2, CHR 0x80, CHR 0x87], [CHR 0xE2, CHR 0x80, CHR 0x88],
      [CHR 0xE2, CHR 0x80, CHR 0x89], [CHR 0xE2, CHR 0x80, CHR 0x8A], [CHR 0xE2, CHR 0x80, CHR 0xA8],
      [CHR 0xE2, CHR 0x80, CHR 0xA9], [CHR 0xE2, CHR 0x80, CHR 0xAF], [CHR 0xE2, CHR 0x81, CHR 0x9F],
      [CHR 0xE3, CHR 0x80, CHR 0x80], [CHR 0xEF, CHR 0xBB, CHR 0xBF]]"

text \<open>The length of the pattern of \<open>ws\<close> that \<open>x\<close> starts with, and 0 when there is none.\<close>

definition spaceAt :: "string list \<Rightarrow> string \<Rightarrow> nat" where
  "spaceAt ws x =
     (case find (\<lambda>w. take (length w) x = w) ws of None \<Rightarrow> 0 | Some w \<Rightarrow> length w)"

fun dropSpaces :: "string list \<Rightarrow> string \<Rightarrow> string" where
  "dropSpaces ws [] = []"
| "dropSpaces ws (c # cs) =
     (let k = spaceAt ws (c # cs)
      in if k = 0 then c # cs else dropSpaces ws (drop (k - 1) cs))"

text \<open>
  The end of the string is trimmed on the reversed string with the reversed patterns: in
  UTF-8 the first byte of a character never occurs inside another character.
\<close>

definition trim :: "string \<Rightarrow> string" where
  "trim x = rev (dropSpaces (map rev whiteSpace) (rev (dropSpaces whiteSpace x)))"

record settings_form =
  userNameInput :: string
  studentMajor :: string
  studentLevel :: string

definition saveSettings :: "string \<Rightarrow> settings_form \<Rightarrow> state \<Rightarrow> state" where
  "saveSettings typ f s =
     (let s1 =
            (if typ = ''name'' then
               (let newName = trim (userNameInput f)
                in if newName \<noteq> [] then
                     showModal ''Profile Updated''
                       (''Welcome message personalized for '' @ newName @ ''!'')
                       (s\<lparr>userName := newName\<rparr>)
                   else showModal ''Error'' ''Please enter a valid name.'' s)
             else if typ = ''profile'' then
               showModal ''Profile Saved'' ''Your academic details have been saved.''
                 (s\<lparr>academicProfile := \<lparr>major = trim (studentMajor f),
                                           level = studentLevel f\<rparr>\<rparr>)
             else s)
      in saveState s1)"

text \<open>
  The goal form. \<open>hours\<close> is what \<^verbatim>\<open>parseInt\<close> made of the field: \<open>None\<close> is \<^verbatim>\<open>NaN\<close>, for which
  \<^verbatim>\<open>hours > 0\<close> is false.
\<close>

definition submitGoalForm :: "string \<Rightarrow> int option \<Rightarrow> state \<Rightarrow> state" where
  "submitGoalForm subj hours s =
     (case hours of
        None \<Rightarrow> s
      | Some h \<Rightarrow>
          if subj \<noteq> [] \<and> h > 0 then
            (let s1 =
                   (case goals s subj of
                      None \<Rightarrow> s\<lparr>goals := (goals s)(subj \<mapsto> \<lparr>totalGoal = h, hoursLogged = 0\<rparr>)\<rparr>
                    | Some g \<Rightarrow> s\<lparr>goals := (goals s)(subj \<mapsto> g\<lparr>totalGoal := h\<rparr>)\<rparr>);
                 s2 = saveState s1
             in showModal ''Goal Set''
                  (''Your study goal for '' @ subj @ '' is now '' @ numToString h @ '' hours.'')
                  s2)
          else s)"

definition mockLogProgress :: "string \<Rightarrow> int \<Rightarrow> state \<Rightarrow> state" where
  "mockLogProgress subj hours s =
     (case goals s subj of
        Some g \<Rightarrow>
          (let s1 = s\<lparr>goals := (goals s)(subj \<mapsto> g\<lparr>hoursLogged := hoursLogged g + hours\<rparr>)\<rparr>;
               s2 = saveState s1
           in showModal ''Progress Logged''
                (''Successfully logged '' @ numToString hours @ '' hours for '' @ subj @ ''.'')
                s2)
      | None \<Rightarrow> showModal ''Error'' (''Please set a goal for '' @ subj @ '' first.'') s)"

definition saveNotes :: "string \<Rightarrow> state \<Rightarrow> state" where
  "saveNotes txt s = saveState (s\<lparr>notesText := txt\<rparr>)"

subsection \<open>Start of the application\<close>

text \<open>\<^verbatim>\<open>a || b\<close> on strings: the empty string is falsy.\<close>

definition orDefault :: "string \<Rightarrow> string \<Rightarrow> string" where
  "orDefault a b = (if a = [] then b else a)"

definition loadState :: "state \<Rightarrow> state" where
  "loadState s =
     (case storage s of
        None \<Rightarrow> s
      | Some p \<Rightarrow>
          s\<lparr>tasks := p_tasks p, notesText := orDefault (p_notes p) [],
            theme := orDefault (p_theme p) ''light'', goals := p_goals p,
            userName := orDefault (p_userName p) [], streak := p_streak p,
            academicProfile := p_academicProfile p\<rparr>)"

text \<open>
  A page load: the script starts from its initial \<^verbatim>\<open>state\<close> literal, with whatever local
  storage holds, and runs \<^verbatim>\<open>initializeApp\<close>. The argument \<open>s\<close> is the state the previous
  page left behind; only its storage (and the trace of effects) survives.
\<close>

definition initializeApp :: "clock \<Rightarrow> string \<Rightarrow> view \<Rightarrow> state \<Rightarrow> state" where
  "initializeApp c resetLabel v s =
     (let s0 = (initialState resetLabel)\<lparr>storage := storage s, effects := effects s\<rparr>;
          s1 = loadState s0;
          s2 = setPomodoroMode ''study'' s1;
          s3 = updateStreak c False s2
      in renderTasks v s3)"

subsection \<open>Runs of the application\<close>

text \<open>
  The events that change the state: a page load, the handlers of the forms and buttons, and
  a tick of the countdown. Handlers that only write to the page or move the calendar view
  (\<^verbatim>\<open>showSection\<close>, \<^verbatim>\<open>editTask\<close>, \<^verbatim>\<open>closeModal\<close>, \<^verbatim>\<open>changeMonth\<close>) are not events.
\<close>

datatype event =
  InitializeApp clock string view
  | RenderTasks view
  | SubmitTaskForm view task_form
  | DeleteTask view int
  | ToggleTaskStatus clock view int
  | SaveSettings string settings_form
  | SubmitGoalForm string "int option"
  | MockLogProgress string int
  | SaveNotes string
  | ToggleTheme
  | StartTimer
  | PauseTimer
  | ResetTimer
  | SetPomodoroMode string
  | Tick

fun step :: "event \<Rightarrow> state \<Rightarrow> state" where
  "step (InitializeApp c l v) s = initializeApp c l v s"
| "step (RenderTasks v) s = renderTasks v s"
| "step (SubmitTaskForm v f) s = submitTaskForm v f s"
| "step (DeleteTask v i) s = deleteTask v i s"
| "step (ToggleTaskStatus c v i) s = toggleTaskStatus c v i s"
| "step (SaveSettings typ f) s = saveSettings typ f s"
| "step (SubmitGoalForm subj h) s = submitGoalForm subj h s"
| "step (MockLogProgress subj h) s = mockLogProgress subj h s"
| "step (SaveNotes txt) s = saveNotes txt s"
| "step ToggleTheme s = toggleTheme s"
| "step StartTimer s = startTimer s"
| "step PauseTimer s = pauseTimer s"
| "step ResetTimer s = resetTimer s"
| "step (SetPomodoroMode m) s = setPomodoroMode m s"
| "step Tick s = tick s"

text \<open>A run applies the events from left to right.\<close>

definition run :: "event list \<Rightarrow> state \<Rightarrow> state" where
  "run es s = fold step es s"

section \<open>What the claims speak about\<close>

subsection \<open>Counting effects\<close>

definition isMilestoneModal :: "effect \<Rightarrow> bool" where
  "isMilestoneModal e = (case e of ShowModal t b \<Rightarrow> t = milestoneTitle | _ \<Rightarrow> False)"

definition milestoneModals :: "state \<Rightarrow> nat" where
  "milestoneModals s = length (filter isMilestoneModal (effects s))"

text \<open>
  \<^verbatim>\<open>updateStreak\<close> is the only writer of the streak statistic, once per call: the number of
  such writes in the trace is the number of calls.
\<close>

definition isStatStreak :: "effect \<Rightarrow> bool" where
  "isStatStreak e = (case e of StatStreak n \<Rightarrow> True | _ \<Rightarrow> False)"

definition streakUpdates :: "state \<Rightarrow> nat" where
  "streakUpdates s = length (filter isStatStreak (effects s))"

definition isModal :: "effect \<Rightarrow> bool" where
  "isModal e = (case e of ShowModal t b \<Rightarrow> True | _ \<Rightarrow> False)"

definition modalsShown :: "state \<Rightarrow> nat" where
  "modalsShown s = length (filter isModal (effects s))"

subsection \<open>Invariants\<close>

definition streakInvariant :: "streak_state \<Rightarrow> bool" where
  "streakInvariant st = ((count st = 0) = (lastCompletionDate st = None))"

definition goodStreak :: "streak_state \<Rightarrow> bool" where
  "goodStreak st = (streakInvariant st \<and> 0 \<le> count st)"

text \<open>What a page load would read back from local storage.\<close>

definition storedTasks :: "state \<Rightarrow> task list" where
  "storedTasks s = (case storage s of None \<Rightarrow> [] | Some p \<Rightarrow> p_tasks p)"

definition storedStreak :: "state \<Rightarrow> streak_state" where
  "storedStreak s = (case storage s of None \<Rightarrow> initialStreak | Some p \<Rightarrow> p_streak p)"

definition streakOk :: "state \<Rightarrow> bool" where
  "streakOk s = (goodStreak (streak s) \<and> goodStreak (storedStreak s))"

definition tasksOk :: "state \<Rightarrow> bool" where
  "tasksOk s = (distinct (map task_id (tasks s)) \<and> distinct (map task_id (storedTasks s)))"

text \<open>The one assumption on the engine's sort: it returns a permutation of its argument.\<close>

definition sortOk :: "view \<Rightarrow> bool" where
  "sortOk v = (\<forall>ts. mset (sortTasks v ts) = mset ts)"

fun viewOk :: "event \<Rightarrow> bool" where
  "viewOk (InitializeApp c l v) = sortOk v"
| "viewOk (RenderTasks v) = sortOk v"
| "viewOk (SubmitTaskForm v f) = sortOk v"
| "viewOk (DeleteTask v i) = sortOk v"
| "viewOk (ToggleTaskStatus c v i) = sortOk v"
| "viewOk _ = True"

subsection \<open>The history of a countdown\<close>

text \<open>A natural completion: a tick of an active countdown that brings the time to zero.\<close>

fun naturalCompletion :: "event \<Rightarrow> state \<Rightarrow> bool" where
  "naturalCompletion Tick s = (timers s \<noteq> [] \<and> time (pomodoro s) - 1 \<le> 0)"
| "naturalCompletion _ s = False"

text \<open>A start of the timer; a page load starts everything afresh.\<close>

fun isStart :: "event \<Rightarrow> bool" where
  "isStart StartTimer = True"
| "isStart (InitializeApp c l v) = True"
| "isStart _ = False"

fun isStartOrReset :: "event \<Rightarrow> bool" where
  "isStartOrReset ResetTimer = True"
| "isStartOrReset e = isStart e"

text \<open>
  \<open>completedSince clears es s f\<close>: running the events \<open>es\<close> from \<open>s\<close>, has a natural completion
  happened after the last event that \<open>clears\<close> selects? \<open>f\<close> is the answer before \<open>es\<close>.
\<close>

fun completedSince :: "(event \<Rightarrow> bool) \<Rightarrow> event list \<Rightarrow> state \<Rightarrow> bool \<Rightarrow> bool" where
  "completedSince clears [] s f = f"
| "completedSince clears (e # es) s f =
     completedSince clears es (step e s)
       (if naturalCompletion e s then True else if clears e then False else f)"

text \<open>The markup's label of the reset button is not the label the script sets on completion.\<close>

fun pageLabelOk :: "event \<Rightarrow> bool" where
  "pageLabelOk (InitializeApp c l v) = (l \<noteq> ''Next Mode'')"
| "pageLabelOk _ = True"

definition labelInv :: "state \<Rightarrow> bool \<Rightarrow> bool" where
  "labelInv s f =
     (((resetBtnText s = ''Next Mode'') = f)
      \<and> (running (pomodoro s) \<longrightarrow> resetBtnText s \<noteq> ''Next Mode''))"

subsection \<open>Date strings\<close>

text \<open>
  The date string of a UTC calendar date, as \<^verbatim>\<open>toISOString().slice(0, 10)\<close> builds it for the
  years 0 to 9999: the year on four digits, the month and the day on two.
\<close>

fun fixedDigits :: "nat \<Rightarrow> nat \<Rightarrow> string" where
  "fixedDigits 0 n = []"
| "fixedDigits (Suc k) n = fixedDigits k (n div 10) @ [char_of (48 + n mod 10)]"

definition isoDate :: "nat \<Rightarrow> nat \<Rightarrow> nat \<Rightarrow> string" where
  "isoDate y m d = fixedDigits 4 y @ ''-'' @ fixedDigits 2 m @ ''-'' @ fixedDigits 2 d"

subsection \<open>The system clock\<close>

text \<open>
  A time value is a number of milliseconds since 1970-01-01T00:00:00Z; \<^verbatim>\<open>new Date()\<close> reads
  the current one. The day number of a time value is its quotient by the milliseconds of a
  day, and \<open>civilFromDays\<close> is the date (year, month, day) of a day number in the
  proleptic Gregorian calendar.
\<close>

definition msPerDay :: int where
  "msPerDay = 86400000"

definition civilFromDays :: "int \<Rightarrow> int \<times> int \<times> int" where
  "civilFromDays n =
     (let z = n + 719468;
          era = z div 146097;
          doe = z mod 146097;
          yoe = (doe - doe div 1460 + doe div 36524 - doe div 146096) div 365;
          y = yoe + era * 400;
          doy = doe - (365 * yoe + yoe div 4 - yoe div 100);
          mp = (5 * doy + 2) div 153;
          d = doy - (153 * mp + 2) div 5 + 1;
          m = (if mp < 10 then mp + 3 else mp - 9)
      in (if m \<le> 2 then y + 1 else y, m, d))"

text \<open>
  \<^verbatim>\<open>toISOString().slice(0, 10)\<close> of a time value with the given day number. Outside the years 0
  to 9999 the year is printed with a sign and six digits, and the slice cuts the day off.
\<close>

definition dateOfDay :: "int \<Rightarrow> string" where
  "dateOfDay n =
     (let (y, m, d) = civilFromDays n
      in if 0 \<le> y \<and> y \<le> 9999 then isoDate (nat y) (nat m) (nat d)
         else take 10 ((if y < 0 then ''-'' else ''+'') @ fixedDigits 6 (nat \<bar>y\<bar>) @ ''-''
                       @ fixedDigits 2 (nat m) @ ''-'' @ fixedDigits 2 (nat d)))"

definition toISODate :: "int \<Rightarrow> string" where
  "toISODate t = dateOfDay (t div msPerDay)"

text \<open>
  The time zone of the browser: the offset of local time from UTC, in milliseconds, in
  force at a UTC time value, and the offset to take for a local time value.
\<close>

record zone =
  offsetAtUtc :: "int \<Rightarrow> int"
  offsetAtLocal :: "int \<Rightarrow> int"

text \<open>
  \<^verbatim>\<open>d.setDate(d.getDate() - 1)\<close>: both methods work on the local time value. Setting the day
  of the month to one less (day 0 is the last day of the month before) moves the local
  time value back by one day, the time of day unchanged; the result is turned into a UTC
  time value with the offset for that local time.
\<close>

definition setDateMinusOne :: "zone \<Rightarrow> int \<Rightarrow> int" where
  "setDateMinusOne z t =
     (let localNow = t + offsetAtUtc z t;
          moved = localNow - msPerDay
      in moved - offsetAtLocal z moved)"

text \<open>
  What \<^verbatim>\<open>updateStreak\<close> reads from the clock: \<^verbatim>\<open>today\<close> from a first \<^verbatim>\<open>new Date()\<close> at the time
  value \<open>t1\<close>, \<^verbatim>\<open>yesterdayString\<close> from a second one at \<open>t2\<close>, moved back by \<^verbatim>\<open>setDate\<close>.
\<close>

definition readClock :: "zone \<Rightarrow> int \<Rightarrow> int \<Rightarrow> clock" where
  "readClock z t1 t2 =
     \<lparr>today = toISODate t1, yesterdayString = toISODate (setDateMinusOne z t2)\<rparr>"

text \<open>A zone whose offset never changes.\<close>

definition fixedZone :: "int \<Rightarrow> zone" where
  "fixedZone c = \<lparr>offsetAtUtc = (\<lambda>t. c), offsetAtLocal = (\<lambda>t. c)\<rparr>"

text \<open>
  US Eastern time in 2024: five hours behind UTC, and four hours behind from
  2024-03-10T07:00Z (local 03:00) until 2024-11-03T06:00Z (local 02:00).
\<close>

definition easternTime2024 :: zone where
  "easternTime2024 =
     \<lparr>offsetAtUtc = (\<lambda>t. if 1710054000000 \<le> t \<and> t < 1730613600000
                          then - 14400000 else - 18000000),
      offsetAtLocal = (\<lambda>t. if 1710039600000 \<le> t \<and> t < 1730599200000
                            then - 14400000 else - 18000000)\<rparr>"

subsection \<open>Concrete inputs\<close>

definition exampleState :: "int \<Rightarrow> string option \<Rightarrow> string option \<Rightarrow> state" where
  "exampleState n d r =
     (initialState ''Reset'')\<lparr>streak := \<lparr>count = n, lastCompletionDate = d, lastRewardedDay = r\<rparr>\<rparr>"

definition exampleClock :: clock where
  "exampleClock = \<lparr>today = ''2024-03-10'', yesterdayString = ''2024-03-09''\<rparr>"

definition plainView :: view where
  "plainView = \<lparr>searchQuery = [], filterStatus = ''all'', sortTasks = rev\<rparr>"

definition exampleForm :: "id_field \<Rightarrow> task_form" where
  "exampleForm i =
     \<lparr>f_taskId = i, f_title = ''Read chapter 3'', f_subject = ''Math'', f_category = ''Reading'',
      f_deadline = ''2024-03-12'', f_priority = ''High''\<rparr>"

definition exampleTask :: "string \<Rightarrow> task" where
  "exampleTask st =
     \<lparr>task_id = 1, title = ''Read chapter 3'', subject = ''Math'', category = ''Reading'',
      deadline = ''2024-03-12'', priority = ''High'', status = st\<rparr>"


section \<open>The streak\<close>

subsection \<open>What the two functions compute\<close>

lemma checkStreakMilestones_cases:
  "checkStreakMilestones n d s =
     (if lastRewardedDay (streak s) \<noteq> Some d \<and> n \<in> {5, 10, 20, 50, 100}
      then s\<lparr>effects := effects s @ [ShowModal milestoneTitle (milestoneBody n)],
             streak := (streak s)\<lparr>lastRewardedDay := Some d\<rparr>\<rparr>
      else s)"
  by (simp add: checkStreakMilestones_def STREAK_MILESTONES_def showModal_def Let_def)

lemma streak_updateStreak_True:
  "streak (updateStreak c True s) =
     (if lastCompletionDate (streak s) = Some (today c) then streak s
      else
        (let n = (if yesterdayString c \<noteq> []
                     \<and> lastCompletionDate (streak s) = Some (yesterdayString c)
                  then count (streak s) + 1 else 1)
         in \<lparr>count = n, lastCompletionDate = Some (today c),
             lastRewardedDay =
               (if lastRewardedDay (streak s) \<noteq> Some (today c) \<and> n \<in> {5, 10, 20, 50, 100}
                then Some (today c) else lastRewardedDay (streak s))\<rparr>))"
  by (cases "lastCompletionDate (streak s)")
     (auto simp add: updateStreak_def saveState_def checkStreakMilestones_cases Let_def)

lemma streak_updateStreak_False:
  "streak (updateStreak c False s) =
     (if truthy (lastCompletionDate (streak s))
         \<and> the (lastCompletionDate (streak s)) < yesterdayString c
      then \<lparr>count = 0, lastCompletionDate = None, lastRewardedDay = None\<rparr>
      else streak s)"
  by (simp add: updateStreak_def saveState_def Let_def)

lemma streak_updateStreak_cong:
  "streak s = streak s' \<Longrightarrow> streak (updateStreak c b s) = streak (updateStreak c b s')"
  by (cases b) (simp_all add: streak_updateStreak_True streak_updateStreak_False)

lemma effects_updateStreak_True:
  "effects (updateStreak c True s) =
     effects s
     @ (if lastCompletionDate (streak s) \<noteq> Some (today c)
           \<and> lastRewardedDay (streak s) \<noteq> Some (today c)
           \<and> count (streak (updateStreak c True s)) \<in> {5, 10, 20, 50, 100}
        then [ShowModal milestoneTitle (milestoneBody (count (streak (updateStreak c True s))))]
        else [])
     @ [StatStreak (count (streak (updateStreak c True s))), SaveState]"
  by (cases "lastCompletionDate (streak s)")
     (auto simp add: updateStreak_def saveState_def checkStreakMilestones_cases Let_def)

lemma streakUpdates_updateStreak:
  "streakUpdates (updateStreak c b s) = streakUpdates s + 1"
proof -
  have "\<exists>m. effects (updateStreak c b s) =
              effects s @ m @ [StatStreak (count (streak (updateStreak c b s))), SaveState]
          \<and> (m = [] \<or> (\<exists>t x. m = [ShowModal t x]))"
    by (cases b)
       (auto simp add: updateStreak_def saveState_def checkStreakMilestones_cases Let_def
        split: prod.splits)
  then show ?thesis
    by (auto simp add: streakUpdates_def isStatStreak_def)
qed

lemma lastCompletionDate_recordCompletion:
  "lastCompletionDate (streak (recordCompletion c s)) = Some (today c)"
  by (simp add: recordCompletion_def streak_updateStreak_True Let_def)

lemma recordCompletion_same_day_streak:
  "lastCompletionDate (streak s) = Some (today c) \<Longrightarrow> streak (recordCompletion c s) = streak s"
  by (simp add: recordCompletion_def streak_updateStreak_True)

lemma fold_recordCompletion_same_day:
  "lastCompletionDate (streak s) = Some d \<Longrightarrow> \<forall>c \<in> set cs. today c = d \<Longrightarrow>
   streak (fold recordCompletion cs s) = streak s"
proof (induction cs arbitrary: s)
  case Nil
  then show ?case by simp
next
  case (Cons c cs)
  have same: "streak (recordCompletion c s) = streak s"
    using Cons.prems by (simp add: recordCompletion_same_day_streak)
  have "streak (fold recordCompletion cs (recordCompletion c s)) = streak (recordCompletion c s)"
    using Cons.prems same by (intro Cons.IH) simp_all
  with same show ?case by simp
qed

subsection \<open>Recording a completion\<close>

text \<open>
  What the code does on a new day, in terms of the two strings it reads from the clock: the
  date becomes today, and the count grows by one exactly when the last completion date is
  the string the code takes for yesterday.
\<close>

lemma recordCompletion_new_day:
  assumes "lastCompletionDate (streak s) \<noteq> Some (today c)"
    and "yesterdayString c \<noteq> []"
  shows "lastCompletionDate (streak (recordCompletion c s)) = Some (today c)
       \<and> count (streak (recordCompletion c s)) =
           (if lastCompletionDate (streak s) = Some (yesterdayString c)
            then count (streak s) + 1 else 1)"
  using assms by (auto simp add: recordCompletion_def streak_updateStreak_True Let_def)

subsection \<open>The clock's yesterday\<close>

lemma dateOfDay_not_empty:
  "dateOfDay n \<noteq> []"
  by (simp add: dateOfDay_def isoDate_def split: prod.splits)

lemma setDateMinusOne_fixedZone:
  "setDateMinusOne (fixedZone c) t = t - msPerDay"
  by (simp add: setDateMinusOne_def fixedZone_def Let_def)

text \<open>
  In a zone whose offset never changes, and with both readings of the clock on one day, the
  code's yesterday is the calendar day before today.
\<close>

lemma readClock_fixedZone:
  assumes "t1 div msPerDay = t2 div msPerDay"
  shows "today (readClock (fixedZone c) t1 t2) = dateOfDay (t1 div msPerDay)"
    and "yesterdayString (readClock (fixedZone c) t1 t2) = dateOfDay (t1 div msPerDay - 1)"
proof -
  show "today (readClock (fixedZone c) t1 t2) = dateOfDay (t1 div msPerDay)"
    by (simp add: readClock_def toISODate_def)
  have "(t2 - msPerDay) div msPerDay = t2 div msPerDay - 1"
    by (simp add: msPerDay_def)
  then show "yesterdayString (readClock (fixedZone c) t1 t2) = dateOfDay (t1 div msPerDay - 1)"
    using assms by (simp add: readClock_def toISODate_def setDateMinusOne_fixedZone)
qed

text \<open>Readings of the clock in US Eastern time in 2024.\<close>

lemma civilFromDays_values:
  "civilFromDays 19791 = (2024, 3, 9)"
  "civilFromDays 19792 = (2024, 3, 10)"
  "civilFromDays 20029 = (2024, 11, 2)"
  "civilFromDays 20030 = (2024, 11, 3)"
  "civilFromDays 20031 = (2024, 11, 4)"
  by code_simp+

lemma digit_chars:
  "char_of (48::nat) = CHR ''0''" "char_of (49::nat) = CHR ''1''" "char_of (50::nat) = CHR ''2''"
  "char_of (51::nat) = CHR ''3''" "char_of (52::nat) = CHR ''4''" "char_of (53::nat) = CHR ''5''"
  "char_of (54::nat) = CHR ''6''" "char_of (55::nat) = CHR ''7''" "char_of (56::nat) = CHR ''8''"
  "char_of (57::nat) = CHR ''9''"
  by code_simp+

lemma fixedDigits_2:
  "fixedDigits 2 n = [char_of (48 + n div 10 mod 10), char_of (48 + n mod 10)]"
proof -
  have "(2::nat) = Suc (Suc 0)"
    by simp
  then show ?thesis
    by (simp only: fixedDigits.simps append_Nil append_Cons)
qed

lemma fixedDigits_4:
  "fixedDigits 4 n =
     [char_of (48 + n div 10 div 10 div 10 mod 10), char_of (48 + n div 10 div 10 mod 10),
      char_of (48 + n div 10 mod 10), char_of (48 + n mod 10)]"
proof -
  have "(4::nat) = Suc (Suc (Suc (Suc 0)))"
    by simp
  then show ?thesis
    by (simp only: fixedDigits.simps append_Nil append_Cons)
qed

lemma isoDate_values:
  "isoDate 2024 3 9 = ''2024-03-09''"
  "isoDate 2024 3 10 = ''2024-03-10''"
  "isoDate 2024 11 2 = ''2024-11-02''"
  "isoDate 2024 11 3 = ''2024-11-03''"
  "isoDate 2024 11 4 = ''2024-11-04''"
  unfolding isoDate_def fixedDigits_2 fixedDigits_4
  by (simp_all add: digit_chars)

lemma dateOfDay_values:
  "dateOfDay 19791 = ''2024-03-09''"
  "dateOfDay 19792 = ''2024-03-10''"
  "dateOfDay 20029 = ''2024-11-02''"
  "dateOfDay 20030 = ''2024-11-03''"
  "dateOfDay 20031 = ''2024-11-04''"
  by (simp_all add: dateOfDay_def civilFromDays_values isoDate_values)

lemma readClock_easternTime2024:
  "readClock easternTime2024 1710072000000 1710072000000 =
     \<lparr>today = ''2024-03-10'', yesterdayString = ''2024-03-09''\<rparr>"
  "readClock easternTime2024 1710113400000 1710113400000 =
     \<lparr>today = ''2024-03-10'', yesterdayString = ''2024-03-10''\<rparr>"
  "readClock easternTime2024 1730680200000 1730680200000 =
     \<lparr>today = ''2024-11-04'', yesterdayString = ''2024-11-02''\<rparr>"
  by (simp_all add: readClock_def toISODate_def setDateMinusOne_def easternTime2024_def
      msPerDay_def Let_def dateOfDay_values)

lemma day_before_values:
  "dateOfDay (1710113400000 div msPerDay - 1) = ''2024-03-09''"
  "dateOfDay (1730680200000 div msPerDay - 1) = ''2024-11-03''"
  by (simp_all add: msPerDay_def dateOfDay_values)

text \<open>There the count grows by one exactly after a completion on the day before today.\<close>

lemma recordCompletion_fixedZone:
  assumes "t1 div msPerDay = t2 div msPerDay"
    and "lastCompletionDate (streak s) \<noteq> Some (dateOfDay (t1 div msPerDay))"
  shows "lastCompletionDate (streak (recordCompletion (readClock (fixedZone c) t1 t2) s)) =
           Some (dateOfDay (t1 div msPerDay))
       \<and> count (streak (recordCompletion (readClock (fixedZone c) t1 t2) s)) =
           (if lastCompletionDate (streak s) = Some (dateOfDay (t1 div msPerDay - 1))
            then count (streak s) + 1 else 1)"
  using assms recordCompletion_new_day [of s "readClock (fixedZone c) t1 t2"]
  by (simp add: readClock_fixedZone dateOfDay_not_empty)

text \<open>
  Claim C1: with a last completion date other than today, recording a completion sets the
  date to today and the count to the old count plus one when the last completion date is
  the day before today, and to one otherwise. The code departs from it where the offset of
  local time changes. In US Eastern time at 2024-11-04T00:30Z (19:30 local on the day the
  clocks went back) today is 2024-11-04, and the day before is 2024-11-03; the code moves
  the local date back a day, lands on 2024-11-02T23:30Z and takes 2024-11-02 for
  yesterday. A streak of 3 whose last completion is 2024-11-03 falls to 1.
\<close>

theorem C1_recordCompletion_offset_change:
  "today (readClock easternTime2024 1730680200000 1730680200000) = ''2024-11-04''
   \<and> dateOfDay (1730680200000 div msPerDay - 1) = ''2024-11-03''
   \<and> yesterdayString (readClock easternTime2024 1730680200000 1730680200000) = ''2024-11-02''
   \<and> lastCompletionDate (streak (exampleState 3 (Some ''2024-11-03'') None)) =
       Some ''2024-11-03''
   \<and> count (streak (exampleState 3 (Some ''2024-11-03'') None)) = 3
   \<and> lastCompletionDate (streak (recordCompletion
        (readClock easternTime2024 1730680200000 1730680200000)
        (exampleState 3 (Some ''2024-11-03'') None))) = Some ''2024-11-04''
   \<and> count (streak (recordCompletion
        (readClock easternTime2024 1730680200000 1730680200000)
        (exampleState 3 (Some ''2024-11-03'') None))) = 1"
  by (simp add: readClock_easternTime2024 day_before_values recordCompletion_def
      streak_updateStreak_True exampleState_def)

text \<open>
  Two completions on different days: the second one raises the count by exactly one when
  the string it takes for yesterday is the day of the first, and sets it to one otherwise.
\<close>

lemma recordCompletion_next_day:
  assumes "today c2 \<noteq> today c1" and "yesterdayString c2 \<noteq> []"
  shows "count (streak (recordCompletion c2 (recordCompletion c1 s))) =
           (if yesterdayString c2 = today c1 then count (streak (recordCompletion c1 s)) + 1
            else 1)"
  using assms
  by (auto simp add: recordCompletion_def streak_updateStreak_True [of c2] Let_def
      lastCompletionDate_recordCompletion [unfolded recordCompletion_def])

text \<open>
  Claim C2. If the last completion date is today, recording a completion leaves the
  streak as it is; so after a first completion, any number of further completions on
  that day leave the count where the first one put it.
\<close>

theorem C2_recordCompletion_idempotent:
  "(lastCompletionDate (streak s) = Some (today c) \<longrightarrow>
      streak (recordCompletion c s) = streak s)
   \<and> ((\<forall>c' \<in> set cs. today c' = today c) \<longrightarrow>
      count (streak (fold recordCompletion cs (recordCompletion c s)))
        = count (streak (recordCompletion c s)))"
  using fold_recordCompletion_same_day [OF lastCompletionDate_recordCompletion, of cs c s]
  by (simp add: recordCompletion_same_day_streak)

theorem C2_recordCompletion_idempotent_witness:
  "lastCompletionDate (streak (exampleState 3 (Some ''2024-03-10'') None))
     = Some (today exampleClock)
   \<and> count (streak (recordCompletion exampleClock
         (exampleState 3 (Some ''2024-03-10'') None))) = 3
   \<and> count (streak (fold recordCompletion [exampleClock, exampleClock]
         (recordCompletion exampleClock (exampleState 3 (Some ''2024-03-10'') None)))) = 3"
  using C2_recordCompletion_idempotent
    [of "exampleState 3 (Some ''2024-03-10'') None" exampleClock "[exampleClock, exampleClock]"]
  by (simp add: exampleState_def exampleClock_def)

subsection \<open>The check when the application loads\<close>

text \<open>
  What the code does when the application loads, in terms of the string it takes for
  yesterday: with a last completion date that is not the empty string, it resets the streak
  when that date is before that string, and leaves the streak unchanged otherwise; a
  non-negative count never grows.
\<close>

lemma reconcileOnLoad_only_resets:
  assumes "lastCompletionDate (streak s) \<noteq> Some []"
  shows "streak (reconcileOnLoad c s) =
           (if (case lastCompletionDate (streak s) of None \<Rightarrow> False
                | Some d \<Rightarrow> d < yesterdayString c)
            then \<lparr>count = 0, lastCompletionDate = None, lastRewardedDay = None\<rparr>
            else streak s)
       \<and> (0 \<le> count (streak s) \<longrightarrow>
            count (streak (reconcileOnLoad c s)) \<le> count (streak s))"
  using assms
  by (cases "lastCompletionDate (streak s)")
     (auto simp add: reconcileOnLoad_def streak_updateStreak_False)

text \<open>
  In a zone whose offset never changes, the comparison is with the calendar day before
  today.
\<close>

lemma reconcileOnLoad_fixedZone:
  assumes "t1 div msPerDay = t2 div msPerDay"
    and "lastCompletionDate (streak s) \<noteq> Some []"
  shows "streak (reconcileOnLoad (readClock (fixedZone c) t1 t2) s) =
           (if (case lastCompletionDate (streak s) of None \<Rightarrow> False
                | Some d \<Rightarrow> d < dateOfDay (t1 div msPerDay - 1))
            then \<lparr>count = 0, lastCompletionDate = None, lastRewardedDay = None\<rparr>
            else streak s)"
proof -
  have y: "yesterdayString (readClock (fixedZone c) t1 t2) = dateOfDay (t1 div msPerDay - 1)"
    using assms(1) by (rule readClock_fixedZone)
  show ?thesis
    using reconcileOnLoad_only_resets [OF assms(2), of "readClock (fixedZone c) t1 t2"]
    by (simp only: y)
qed

text \<open>
  Claim C3: the check at load time never raises the count; it resets the streak (count
  zero, both dates null) when the last completion date is strictly earlier than the day
  before today, and leaves the streak unchanged in every other case. The code departs from
  it where the offset of local time changes. In US Eastern time at 2024-03-10T23:30Z (19:30
  local on the day the clocks went forward) the code takes 2024-03-10, today itself, for
  yesterday, and resets a streak of 7 whose last completion is 2024-03-09, the day before
  today. At 2024-11-04T00:30Z it takes 2024-11-02 for yesterday and keeps a streak whose
  last completion is 2024-11-02, two days before today.
\<close>

theorem C3_reconcileOnLoad_offset_change:
  "today (readClock easternTime2024 1710113400000 1710113400000) = ''2024-03-10''
   \<and> dateOfDay (1710113400000 div msPerDay - 1) = ''2024-03-09''
   \<and> yesterdayString (readClock easternTime2024 1710113400000 1710113400000) = ''2024-03-10''
   \<and> count (streak (reconcileOnLoad (readClock easternTime2024 1710113400000 1710113400000)
        (exampleState 7 (Some ''2024-03-09'') (Some ''2024-03-07'')))) = 0
   \<and> lastCompletionDate (streak (reconcileOnLoad
        (readClock easternTime2024 1710113400000 1710113400000)
        (exampleState 7 (Some ''2024-03-09'') (Some ''2024-03-07'')))) = None
   \<and> lastRewardedDay (streak (reconcileOnLoad
        (readClock easternTime2024 1710113400000 1710113400000)
        (exampleState 7 (Some ''2024-03-09'') (Some ''2024-03-07'')))) = None
   \<and> today (readClock easternTime2024 1730680200000 1730680200000) = ''2024-11-04''
   \<and> dateOfDay (1730680200000 div msPerDay - 1) = ''2024-11-03''
   \<and> ''2024-11-02'' < dateOfDay (1730680200000 div msPerDay - 1)
   \<and> yesterdayString (readClock easternTime2024 1730680200000 1730680200000) = ''2024-11-02''
   \<and> count (streak (reconcileOnLoad (readClock easternTime2024 1730680200000 1730680200000)
        (exampleState 7 (Some ''2024-11-02'') None))) = 7
   \<and> lastCompletionDate (streak (reconcileOnLoad
        (readClock easternTime2024 1730680200000 1730680200000)
        (exampleState 7 (Some ''2024-11-02'') None))) = Some ''2024-11-02''"
proof -
  have lt: "''2024-03-09'' < ''2024-03-10''" "''2024-11-02'' < ''2024-11-03''"
    by code_simp+
  show ?thesis
    using lt
    by (simp add: readClock_easternTime2024 day_before_values reconcileOnLoad_def
        streak_updateStreak_False exampleState_def)
qed

lemma reconcileOnLoad_yesterday_unchanged:
  "streak (reconcileOnLoad exampleClock (exampleState 7 (Some ''2024-03-09'') None)) =
     streak (exampleState 7 (Some ''2024-03-09'') None)"
  by (simp add: reconcileOnLoad_def streak_updateStreak_False exampleState_def exampleClock_def)

subsection \<open>Milestones\<close>

lemma milestoneModals_recordCompletion:
  "milestoneModals (recordCompletion c s) =
     milestoneModals s
     + (if lastCompletionDate (streak s) \<noteq> Some (today c)
           \<and> lastRewardedDay (streak s) \<noteq> Some (today c)
           \<and> count (streak (recordCompletion c s)) \<in> {5, 10, 20, 50, 100}
        then 1 else 0)"
  by (simp add: milestoneModals_def recordCompletion_def effects_updateStreak_True
      isMilestoneModal_def)

lemma fold_recordCompletion_same_day_modals:
  "lastCompletionDate (streak s) = Some d \<Longrightarrow> \<forall>c \<in> set cs. today c = d \<Longrightarrow>
   milestoneModals (fold recordCompletion cs s) = milestoneModals s"
proof (induction cs arbitrary: s)
  case Nil
  then show ?case by simp
next
  case (Cons c cs)
  have m: "milestoneModals (recordCompletion c s) = milestoneModals s"
    using Cons.prems by (simp add: milestoneModals_recordCompletion)
  have l: "lastCompletionDate (streak (recordCompletion c s)) = Some d"
    using Cons.prems by (simp add: lastCompletionDate_recordCompletion)
  have "milestoneModals (fold recordCompletion cs (recordCompletion c s))
          = milestoneModals (recordCompletion c s)"
    using Cons.prems l by (intro Cons.IH) simp_all
  with m show ?case by simp
qed

lemma fold_recordCompletion_day_modals:
  assumes "\<forall>c \<in> set cs. today c = d"
  shows "milestoneModals (fold recordCompletion cs s) \<le> milestoneModals s + 1"
proof (cases cs)
  case Nil
  then show ?thesis by simp
next
  case (Cons c cs')
  have l: "lastCompletionDate (streak (recordCompletion c s)) = Some d"
    using assms Cons by (simp add: lastCompletionDate_recordCompletion)
  have "milestoneModals (fold recordCompletion cs' (recordCompletion c s))
          = milestoneModals (recordCompletion c s)"
    using assms Cons l by (intro fold_recordCompletion_same_day_modals [where d = d]) simp_all
  moreover have "milestoneModals (recordCompletion c s) \<le> milestoneModals s + 1"
    by (simp add: milestoneModals_recordCompletion)
  ultimately show ?thesis using Cons by simp
qed

lemma milestone_texts:
  "milestoneTitle =
     map char_of [226::nat, 173, 144] @ '' MILESTONE REACHED! '' @ map char_of [226::nat, 173, 144]"
  "map milestoneBody STREAK_MILESTONES =
     [''You have maintained your study streak for an incredible **5 days**! Your dedication is inspiring. Keep crushing those goals!'',
      ''You have maintained your study streak for an incredible **10 days**! Your dedication is inspiring. Keep crushing those goals!'',
      ''You have maintained your study streak for an incredible **20 days**! Your dedication is inspiring. Keep crushing those goals!'',
      ''You have maintained your study streak for an incredible **50 days**! Your dedication is inspiring. Keep crushing those goals!'',
      ''You have maintained your study streak for an incredible **100 days**! Your dedication is inspiring. Keep crushing those goals!'']"
  by code_simp+

text \<open>
  Claim C4, as stated, has the milestone check return a milestone value when the day
  differs from the last rewarded day and the count is a milestone. The function returns
  nothing: at count 5 on a day not yet rewarded the value of the call is \<^verbatim>\<open>undefined\<close>.
\<close>

theorem C4_checkStreakMilestones_value_counterexample:
  "lastRewardedDay (streak (exampleState 5 (Some ''2024-03-10'') None)) \<noteq> Some ''2024-03-10''
   \<and> (5::int) \<in> {5, 10, 20, 50, 100}
   \<and> checkStreakMilestones_value 5 ''2024-03-10'' (exampleState 5 (Some ''2024-03-10'') None) =
       None"
  by (simp add: checkStreakMilestones_value_def exampleState_def)

text \<open>
  Claim C4, amended. The milestone check returns no value. Exactly when the day differs
  from the last rewarded day and the count is one of 5, 10, 20, 50, 100, it calls
  \<^verbatim>\<open>showModal\<close> with the milestone title and the text that names that count, and records the
  day as rewarded; otherwise it changes nothing. Any number of completions recorded on one
  day add at most one such call.
\<close>

theorem C4_checkStreakMilestones_once_a_day:
  "checkStreakMilestones_value n d s = None
   \<and> (lastRewardedDay (streak s) \<noteq> Some d \<and> n \<in> {5, 10, 20, 50, 100} \<longrightarrow>
      checkStreakMilestones n d s =
        s\<lparr>effects := effects s @ [ShowModal milestoneTitle (milestoneBody n)],
          streak := (streak s)\<lparr>lastRewardedDay := Some d\<rparr>\<rparr>)
   \<and> (\<not> (lastRewardedDay (streak s) \<noteq> Some d \<and> n \<in> {5, 10, 20, 50, 100}) \<longrightarrow>
      checkStreakMilestones n d s = s)
   \<and> ((\<forall>c \<in> set cs. today c = d) \<longrightarrow>
      milestoneModals (fold recordCompletion cs s) \<le> milestoneModals s + 1)
   \<and> milestoneTitle =
       map char_of [226::nat, 173, 144] @ '' MILESTONE REACHED! ''
       @ map char_of [226::nat, 173, 144]
   \<and> map milestoneBody STREAK_MILESTONES =
     [''You have maintained your study streak for an incredible **5 days**! Your dedication is inspiring. Keep crushing those goals!'',
      ''You have maintained your study streak for an incredible **10 days**! Your dedication is inspiring. Keep crushing those goals!'',
      ''You have maintained your study streak for an incredible **20 days**! Your dedication is inspiring. Keep crushing those goals!'',
      ''You have maintained your study streak for an incredible **50 days**! Your dedication is inspiring. Keep crushing those goals!'',
      ''You have maintained your study streak for an incredible **100 days**! Your dedication is inspiring. Keep crushing those goals!'']"
proof -
  have "checkStreakMilestones_value n d s = None"
    by (simp add: checkStreakMilestones_value_def)
  moreover have "(lastRewardedDay (streak s) \<noteq> Some d \<and> n \<in> {5, 10, 20, 50, 100} \<longrightarrow>
      checkStreakMilestones n d s =
        s\<lparr>effects := effects s @ [ShowModal milestoneTitle (milestoneBody n)],
          streak := (streak s)\<lparr>lastRewardedDay := Some d\<rparr>\<rparr>)
   \<and> (\<not> (lastRewardedDay (streak s) \<noteq> Some d \<and> n \<in> {5, 10, 20, 50, 100}) \<longrightarrow>
      checkStreakMilestones n d s = s)"
    by (simp add: checkStreakMilestones_cases)
  moreover have "(\<forall>c \<in> set cs. today c = d) \<longrightarrow>
      milestoneModals (fold recordCompletion cs s) \<le> milestoneModals s + 1"
    using fold_recordCompletion_day_modals [of cs d s] by blast
  ultimately show ?thesis
    using milestone_texts by blast
qed

theorem C4_checkStreakMilestones_once_a_day_witness:
  "lastRewardedDay (streak (exampleState 5 (Some ''2024-03-10'') None)) \<noteq> Some ''2024-03-10''
   \<and> (5::int) \<in> {5, 10, 20, 50, 100}
   \<and> lastRewardedDay (streak (checkStreakMilestones 5 ''2024-03-10''
        (exampleState 5 (Some ''2024-03-10'') None))) = Some ''2024-03-10''
   \<and> effects (checkStreakMilestones 5 ''2024-03-10''
        (exampleState 5 (Some ''2024-03-10'') None)) =
       [ShowModal milestoneTitle (milestoneBody 5)]
   \<and> \<not> (lastRewardedDay (streak (exampleState 5 (Some ''2024-03-10'') (Some ''2024-03-10'')))
          \<noteq> Some ''2024-03-10'' \<and> (5::int) \<in> {5, 10, 20, 50, 100})
   \<and> checkStreakMilestones 5 ''2024-03-10''
        (exampleState 5 (Some ''2024-03-10'') (Some ''2024-03-10'')) =
       exampleState 5 (Some ''2024-03-10'') (Some ''2024-03-10'')
   \<and> today exampleClock = ''2024-03-10''
   \<and> milestoneModals (fold recordCompletion [exampleClock, exampleClock, exampleClock]
        (exampleState 4 (Some ''2024-03-09'') None)) \<le> 1"
proof -
  let ?a = "exampleState 5 (Some ''2024-03-10'') None"
  let ?b = "exampleState 5 (Some ''2024-03-10'') (Some ''2024-03-10'')"
  let ?c = "exampleState 4 (Some ''2024-03-09'') None"
  let ?cs = "[exampleClock, exampleClock, exampleClock]"
  have a: "lastRewardedDay (streak ?a) \<noteq> Some ''2024-03-10''"
    and five: "(5::int) \<in> {5, 10, 20, 50, 100}"
    and b: "\<not> (lastRewardedDay (streak ?b) \<noteq> Some ''2024-03-10''
              \<and> (5::int) \<in> {5, 10, 20, 50, 100})"
    and tc: "today exampleClock = ''2024-03-10''"
    and ea: "effects ?a = []"
    by (simp_all add: exampleState_def exampleClock_def initialState_def)
  have m0: "milestoneModals ?c = 0"
    by (simp add: milestoneModals_def exampleState_def initialState_def)
  have "checkStreakMilestones 5 ''2024-03-10'' ?a =
      ?a\<lparr>effects := effects ?a @ [ShowModal milestoneTitle (milestoneBody 5)],
         streak := (streak ?a)\<lparr>lastRewardedDay := Some ''2024-03-10''\<rparr>\<rparr>"
    using C4_checkStreakMilestones_once_a_day [of 5 "''2024-03-10''" ?a] a five by blast
  then have r1: "lastRewardedDay (streak (checkStreakMilestones 5 ''2024-03-10'' ?a)) =
        Some ''2024-03-10''"
    and r2: "effects (checkStreakMilestones 5 ''2024-03-10'' ?a) =
        [ShowModal milestoneTitle (milestoneBody 5)]"
    by (simp_all add: ea)
  have r3: "checkStreakMilestones 5 ''2024-03-10'' ?b = ?b"
    using C4_checkStreakMilestones_once_a_day [of 5 "''2024-03-10''" ?b] b by blast
  have "\<forall>c \<in> set ?cs. today c = ''2024-03-10''"
    using tc by simp
  then have "milestoneModals (fold recordCompletion ?cs ?c) \<le> milestoneModals ?c + 1"
    using C4_checkStreakMilestones_once_a_day [of _ "''2024-03-10''" ?c ?cs] by blast
  then have r4: "milestoneModals (fold recordCompletion ?cs ?c) \<le> 1"
    by (simp add: m0)
  show ?thesis
    by (intro conjI) (rule a five r1 r2 b r3 tc r4)+
qed

section \<open>What each handler leaves alone\<close>

lemma updateStreak_frame:
  "pomodoro (updateStreak c b s) = pomodoro s"
  "resetBtnText (updateStreak c b s) = resetBtnText s"
  "timers (updateStreak c b s) = timers s"
  "tasks (updateStreak c b s) = tasks s"
  by (simp_all add: updateStreak_def saveState_def checkStreakMilestones_cases Let_def
      split: prod.splits)

lemma renderTasks_frame:
  "pomodoro (renderTasks v s) = pomodoro s"
  "resetBtnText (renderTasks v s) = resetBtnText s"
  "timers (renderTasks v s) = timers s"
  "streak (renderTasks v s) = streak s"
  "storage (renderTasks v s) = storage s"
  "effects (renderTasks v s) = effects s"
  by (simp_all add: renderTasks_def)

lemma submitTaskForm_frame:
  "pomodoro (submitTaskForm v f s) = pomodoro s"
  "resetBtnText (submitTaskForm v f s) = resetBtnText s"
  "timers (submitTaskForm v f s) = timers s"
  "streak (submitTaskForm v f s) = streak s"
  by (simp_all add: submitTaskForm_def renderTasks_frame saveState_def showModal_def Let_def
      split: id_field.splits option.splits)

lemma deleteTask_frame:
  "pomodoro (deleteTask v i s) = pomodoro s"
  "resetBtnText (deleteTask v i s) = resetBtnText s"
  "timers (deleteTask v i s) = timers s"
  "streak (deleteTask v i s) = streak s"
  by (simp_all add: deleteTask_def renderTasks_frame saveState_def showModal_def Let_def)

lemma toggleTaskStatus_frame:
  "pomodoro (toggleTaskStatus c v i s) = pomodoro s"
  "resetBtnText (toggleTaskStatus c v i s) = resetBtnText s"
  "timers (toggleTaskStatus c v i s) = timers s"
  by (simp_all add: toggleTaskStatus_def renderTasks_frame updateStreak_frame saveState_def
      showModal_def Let_def split: option.splits)

lemma saveSettings_frame:
  "pomodoro (saveSettings ty f s) = pomodoro s"
  "resetBtnText (saveSettings ty f s) = resetBtnText s"
  "timers (saveSettings ty f s) = timers s"
  "streak (saveSettings ty f s) = streak s"
  "tasks (saveSettings ty f s) = tasks s"
  by (simp_all add: saveSettings_def saveState_def showModal_def Let_def)

lemma submitGoalForm_frame:
  "pomodoro (submitGoalForm subj h s) = pomodoro s"
  "resetBtnText (submitGoalForm subj h s) = resetBtnText s"
  "timers (submitGoalForm subj h s) = timers s"
  "streak (submitGoalForm subj h s) = streak s"
  "tasks (submitGoalForm subj h s) = tasks s"
  by (simp_all add: submitGoalForm_def saveState_def showModal_def Let_def split: option.splits)

lemma mockLogProgress_frame:
  "pomodoro (mockLogProgress subj n s) = pomodoro s"
  "resetBtnText (mockLogProgress subj n s) = resetBtnText s"
  "timers (mockLogProgress subj n s) = timers s"
  "streak (mockLogProgress subj n s) = streak s"
  "tasks (mockLogProgress subj n s) = tasks s"
  by (simp_all add: mockLogProgress_def saveState_def showModal_def Let_def split: option.splits)

lemma saveNotes_frame:
  "pomodoro (saveNotes tx s) = pomodoro s"
  "resetBtnText (saveNotes tx s) = resetBtnText s"
  "timers (saveNotes tx s) = timers s"
  "streak (saveNotes tx s) = streak s"
  "tasks (saveNotes tx s) = tasks s"
  by (simp_all add: saveNotes_def saveState_def)

lemmas frame =
  updateStreak_frame renderTasks_frame submitTaskForm_frame deleteTask_frame
  toggleTaskStatus_frame saveSettings_frame submitGoalForm_frame mockLogProgress_frame
  saveNotes_frame

lemma pomodoro_handlers_frame:
  "tasks (pauseTimer s) = tasks s" "storage (pauseTimer s) = storage s"
  "streak (pauseTimer s) = streak s"
  "tasks (setPomodoroMode m s) = tasks s" "storage (setPomodoroMode m s) = storage s"
  "streak (setPomodoroMode m s) = streak s"
  "tasks (handleTimerEnd b s) = tasks s" "storage (handleTimerEnd b s) = storage s"
  "streak (handleTimerEnd b s) = streak s"
  "tasks (startTimer s) = tasks s" "storage (startTimer s) = storage s"
  "streak (startTimer s) = streak s"
  "tasks (resetTimer s) = tasks s" "storage (resetTimer s) = storage s"
  "streak (resetTimer s) = streak s"
  "tasks (tick s) = tasks s" "storage (tick s) = storage s"
  "streak (tick s) = streak s"
  by (simp_all add: pauseTimer_def setPomodoroMode_def handleTimerEnd_def startTimer_def
      resetTimer_def tick_def intervalCallback_def clearInterval_def showModal_def Let_def
      split: option.splits)

lemma toggleTheme_frame:
  "tasks (toggleTheme s) = tasks s"
  "streak (toggleTheme s) = streak s"
  by (simp_all add: toggleTheme_def saveState_def pomodoro_handlers_frame Let_def)

section \<open>The Pomodoro timer\<close>

subsection \<open>What the handlers do to the countdown\<close>

lemma pauseTimer_proj:
  "resetBtnText (pauseTimer s) = resetBtnText s"
  "running (pomodoro (pauseTimer s)) = False"
  "mode (pomodoro (pauseTimer s)) = mode (pomodoro s)"
  "time (pomodoro (pauseTimer s)) = time (pomodoro s)"
  "effects (pauseTimer s) = effects s"
  by (simp_all add: pauseTimer_def clearInterval_def Let_def split: option.splits)

lemma setPomodoroMode_proj:
  "resetBtnText (setPomodoroMode m s) = resetBtnText s"
  "running (pomodoro (setPomodoroMode m s)) = False"
  "mode (pomodoro (setPomodoroMode m s)) = m"
  "time (pomodoro (setPomodoroMode m s)) = modeDuration m"
  "effects (setPomodoroMode m s) = effects s"
  by (simp_all add: setPomodoroMode_def pauseTimer_proj Let_def)

lemma handleTimerEnd_proj:
  "resetBtnText (handleTimerEnd b s) = resetBtnText s"
  "running (pomodoro (handleTimerEnd b s)) = False"
  "mode (pomodoro (handleTimerEnd b s)) = nextMode (mode (pomodoro s))"
  "time (pomodoro (handleTimerEnd b s)) = modeDuration (nextMode (mode (pomodoro s)))"
  "effects (handleTimerEnd b s) =
     (if b then effects s
      else effects s @ [ShowModal ''Timer Done!'' (endMessage (mode (pomodoro s)))])"
  by (simp_all add: handleTimerEnd_def setPomodoroMode_proj showModal_def Let_def)

lemma tick_step:
  "timers s \<noteq> [] \<Longrightarrow> 1 < time (pomodoro s) \<Longrightarrow>
   tick s = s\<lparr>pomodoro := (pomodoro s)\<lparr>time := time (pomodoro s) - 1\<rparr>\<rparr>"
  by (simp add: tick_def intervalCallback_def Let_def)

lemma tick_countdown:
  "timers s \<noteq> [] \<Longrightarrow> int k < time (pomodoro s) \<Longrightarrow>
   (tick ^^ k) s = s\<lparr>pomodoro := (pomodoro s)\<lparr>time := time (pomodoro s) - int k\<rparr>\<rparr>"
proof (induction k)
  case 0
  then show ?case by simp
next
  case (Suc k)
  let ?s = "s\<lparr>pomodoro := (pomodoro s)\<lparr>time := time (pomodoro s) - int k\<rparr>\<rparr>"
  have ih: "(tick ^^ k) s = ?s"
    using Suc by simp
  have "(tick ^^ Suc k) s = tick ((tick ^^ k) s)"
    by simp
  also have "\<dots> = tick ?s"
    by (simp only: ih)
  also have "\<dots> = ?s\<lparr>pomodoro := (pomodoro ?s)\<lparr>time := time (pomodoro ?s) - 1\<rparr>\<rparr>"
    using Suc.prems by (intro tick_step) simp_all
  also have "\<dots> = s\<lparr>pomodoro := (pomodoro s)\<lparr>time := time (pomodoro s) - int (Suc k)\<rparr>\<rparr>"
    by (simp add: algebra_simps)
  finally show ?case .
qed

lemma intervalCallback_last:
  "time (pomodoro s) \<le> 1 \<Longrightarrow>
   intervalCallback s =
     s\<lparr>pomodoro := (pomodoro s)\<lparr>time := modeDuration (nextMode (mode (pomodoro s))),
                                   mode := nextMode (mode (pomodoro s)), running := False\<rparr>,
       resetBtnText := ''Next Mode'',
       timers := (case intervalId (pomodoro s) of None \<Rightarrow> timers s
                  | Some i \<Rightarrow> removeAll i (timers s)),
       effects := effects s @ [ShowModal ''Timer Done!'' (endMessage (mode (pomodoro s)))]\<rparr>"
  by (cases "intervalId (pomodoro s)")
     (simp_all add: intervalCallback_def handleTimerEnd_def setPomodoroMode_def pauseTimer_def
      clearInterval_def showModal_def Let_def)

subsection \<open>A study session runs to its end\<close>

text \<open>
  Claim C6. From a running study countdown of 1500 seconds, the 1500th tick stops the
  countdown, switches to the short break with 300 seconds and shows one completion
  modal, the only effect of all 1500 ticks; before that tick the countdown is still
  running in study mode and nothing has been shown. The end-of-session rule sends study to
  the short break and both breaks to study, and never yields the long break.
\<close>

theorem C6_study_session_completes:
  assumes "mode (pomodoro s) = ''study''"
    and "time (pomodoro s) = 1500"
    and "running (pomodoro s)"
    and "intervalId (pomodoro s) = Some i"
    and "i \<in> set (timers s)"
  shows "running (pomodoro ((tick ^^ 1500) s)) = False
       \<and> mode (pomodoro ((tick ^^ 1500) s)) = ''short''
       \<and> time (pomodoro ((tick ^^ 1500) s)) = 300
       \<and> effects ((tick ^^ 1500) s) =
           effects s @ [ShowModal ''Timer Done!''
                          ''Study session complete! Time for a short break. You earned it!'']
       \<and> (\<forall>k < 1500. running (pomodoro ((tick ^^ k) s))
                      \<and> mode (pomodoro ((tick ^^ k) s)) = ''study''
                      \<and> time (pomodoro ((tick ^^ k) s)) = 1500 - int k
                      \<and> effects ((tick ^^ k) s) = effects s)
       \<and> nextMode ''study'' = ''short'' \<and> nextMode ''short'' = ''study''
       \<and> nextMode ''long'' = ''study'' \<and> (\<forall>m. nextMode m \<noteq> ''long'')
       \<and> (\<forall>b s'. mode (pomodoro (handleTimerEnd b s')) = nextMode (mode (pomodoro s')))"
proof -
  have active: "timers s \<noteq> []"
    using assms(5) by auto
  have before: "(tick ^^ k) s = s\<lparr>pomodoro := (pomodoro s)\<lparr>time := 1500 - int k\<rparr>\<rparr>"
    if "k < 1500" for k
    using tick_countdown [OF active, of k] that assms(2) by simp
  let ?s = "s\<lparr>pomodoro := (pomodoro s)\<lparr>time := 1\<rparr>\<rparr>"
  have "(1500::nat) = Suc 1499"
    by simp
  then have "(tick ^^ 1500) s = tick ((tick ^^ 1499) s)"
    by (simp only: funpow.simps o_apply)
  also have "(tick ^^ 1499) s = ?s"
    using before [of 1499] by simp
  also have "tick ?s = intervalCallback ?s"
    using active by (simp add: tick_def)
  finally have last: "(tick ^^ 1500) s = intervalCallback ?s" .
  have fin: "intervalCallback ?s =
      ?s\<lparr>pomodoro := (pomodoro ?s)\<lparr>time := modeDuration (nextMode (mode (pomodoro ?s))),
                                     mode := nextMode (mode (pomodoro ?s)), running := False\<rparr>,
         resetBtnText := ''Next Mode'',
         timers := (case intervalId (pomodoro ?s) of None \<Rightarrow> timers ?s
                    | Some i \<Rightarrow> removeAll i (timers ?s)),
         effects := effects ?s @ [ShowModal ''Timer Done!'' (endMessage (mode (pomodoro ?s)))]\<rparr>"
    by (intro intervalCallback_last) simp
  have at_end: "running (pomodoro ((tick ^^ 1500) s)) = False
       \<and> mode (pomodoro ((tick ^^ 1500) s)) = ''short''
       \<and> time (pomodoro ((tick ^^ 1500) s)) = 300
       \<and> effects ((tick ^^ 1500) s) =
           effects s @ [ShowModal ''Timer Done!''
                          ''Study session complete! Time for a short break. You earned it!'']"
    unfolding last fin using assms(1)
    by (simp add: nextMode_def modeDuration_def endMessage_def)
  have earlier: "\<forall>k < 1500. running (pomodoro ((tick ^^ k) s))
                      \<and> mode (pomodoro ((tick ^^ k) s)) = ''study''
                      \<and> time (pomodoro ((tick ^^ k) s)) = 1500 - int k
                      \<and> effects ((tick ^^ k) s) = effects s"
    using before assms(1,3) by simp
  have rule: "nextMode ''study'' = ''short'' \<and> nextMode ''short'' = ''study''
       \<and> nextMode ''long'' = ''study'' \<and> (\<forall>m. nextMode m \<noteq> ''long'')
       \<and> (\<forall>b s'. mode (pomodoro (handleTimerEnd b s')) = nextMode (mode (pomodoro s')))"
    by (simp add: nextMode_def handleTimerEnd_proj)
  from at_end earlier rule show ?thesis by blast
qed

theorem C6_study_session_completes_witness:
  "mode (pomodoro (startTimer (initialState ''Reset''))) = ''study''
   \<and> time (pomodoro (startTimer (initialState ''Reset''))) = 1500
   \<and> running (pomodoro (startTimer (initialState ''Reset'')))
   \<and> intervalId (pomodoro (startTimer (initialState ''Reset''))) = Some 0
   \<and> 0 \<in> set (timers (startTimer (initialState ''Reset'')))
   \<and> running (pomodoro ((tick ^^ 1500) (startTimer (initialState ''Reset'')))) = False
   \<and> mode (pomodoro ((tick ^^ 1500) (startTimer (initialState ''Reset'')))) = ''short''
   \<and> time (pomodoro ((tick ^^ 1500) (startTimer (initialState ''Reset'')))) = 300
   \<and> effects ((tick ^^ 1500) (startTimer (initialState ''Reset''))) =
        [ShowModal ''Timer Done!''
           ''Study session complete! Time for a short break. You earned it!'']
   \<and> time (pomodoro ((tick ^^ 1499) (startTimer (initialState ''Reset'')))) = 1
   \<and> running (pomodoro ((tick ^^ 1499) (startTimer (initialState ''Reset''))))"
proof -
  let ?s = "startTimer (initialState ''Reset'')"
  have h1: "mode (pomodoro ?s) = ''study''"
    and h2: "time (pomodoro ?s) = 1500"
    and h3: "running (pomodoro ?s)"
    and h4: "intervalId (pomodoro ?s) = Some 0"
    and h5: "0 \<in> set (timers ?s)"
    and e: "effects ?s = []"
    by (simp_all add: startTimer_def initialState_def Let_def)
  show ?thesis
    using h1 h2 h3 h4 h5 e C6_study_session_completes [OF h1 h2 h3 h4 h5]
    by simp
qed

subsection \<open>Reset\<close>

text \<open>
  The label of the reset button is \<^verbatim>\<open>Next Mode\<close> exactly when a countdown has run to its end
  since the timer was last started; while a countdown runs it is never \<^verbatim>\<open>Next Mode\<close>.
\<close>

lemma labelInv_step:
  assumes "pageLabelOk e" and "labelInv s f"
  shows "labelInv (step e s)
           (if naturalCompletion e s then True else if isStart e then False else f)"
proof (cases e)
  case (InitializeApp c l v)
  then show ?thesis using assms
    by (simp add: labelInv_def initializeApp_def frame setPomodoroMode_proj loadState_def
        initialState_def Let_def split: option.splits)
next
  case Tick
  then show ?thesis using assms
    by (auto simp add: labelInv_def tick_def intervalCallback_def handleTimerEnd_proj
        clearInterval_def Let_def split: option.splits)
next
  case ResetTimer
  then show ?thesis using assms
    by (auto simp add: labelInv_def resetTimer_def handleTimerEnd_proj setPomodoroMode_proj
        pauseTimer_proj Let_def)
next
  case StartTimer
  then show ?thesis using assms
    by (auto simp add: labelInv_def startTimer_def Let_def)
next
  case ToggleTheme
  then show ?thesis using assms
    by (auto simp add: labelInv_def toggleTheme_def setPomodoroMode_proj saveState_def Let_def)
qed (use assms in \<open>auto simp add: labelInv_def frame setPomodoroMode_proj pauseTimer_proj\<close>)

lemma labelInv_run:
  "list_all pageLabelOk es \<Longrightarrow> labelInv s f \<Longrightarrow>
   labelInv (run es s) (completedSince isStart es s f)"
proof (induction es arbitrary: s f)
  case Nil
  then show ?case by (simp add: run_def)
next
  case (Cons e es)
  have "labelInv (step e s)
          (if naturalCompletion e s then True else if isStart e then False else f)"
    using Cons.prems by (intro labelInv_step) simp_all
  then have "labelInv (run es (step e s))
          (completedSince isStart es (step e s)
             (if naturalCompletion e s then True else if isStart e then False else f))"
    using Cons.prems by (intro Cons.IH) simp_all
  then show ?case by (simp add: run_def)
qed

text \<open>
  Claim C7, as stated, is about a state with no natural completion since the last start or
  reset. A reset that advances the mode keeps the label \<^verbatim>\<open>Next Mode\<close>: start, let the study
  session run out, press reset once (back to study mode). No completion has happened since
  that reset, and yet pause followed by reset changes the mode to the short break.
\<close>

theorem C7_resetTimer_second_press_counterexample:
  "\<not> completedSince isStartOrReset (StartTimer # replicate 1500 Tick @ [ResetTimer])
        (initialState ''Reset'') False
   \<and> mode (pomodoro (run (StartTimer # replicate 1500 Tick @ [ResetTimer])
        (initialState ''Reset''))) = ''study''
   \<and> mode (pomodoro (resetTimer (pauseTimer
        (run (StartTimer # replicate 1500 Tick @ [ResetTimer]) (initialState ''Reset''))))) =
       ''short''
   \<and> time (pomodoro (resetTimer (pauseTimer
        (run (StartTimer # replicate 1500 Tick @ [ResetTimer]) (initialState ''Reset''))))) =
       300"
  by code_simp

text \<open>
  Claim C7, amended. After any run of the application from its initial state: if no
  countdown has run to its end since the timer was last started, pause followed by reset
  keeps the mode, reloads the mode's duration (study 1500, short break 300, long break 900)
  and shows nothing; if one has, reset moves to the next mode, loads that mode's duration
  and shows nothing.
\<close>

theorem C7_resetTimer_after_run:
  assumes "l \<noteq> ''Next Mode''"
    and "list_all pageLabelOk es"
    and "s = run es (initialState l)"
  shows "(\<not> completedSince isStart es (initialState l) False \<longrightarrow>
            mode (pomodoro (resetTimer (pauseTimer s))) = mode (pomodoro s)
          \<and> time (pomodoro (resetTimer (pauseTimer s))) = modeDuration (mode (pomodoro s))
          \<and> effects (resetTimer (pauseTimer s)) = effects s)
       \<and> (completedSince isStart es (initialState l) False \<longrightarrow>
            mode (pomodoro (resetTimer s)) = nextMode (mode (pomodoro s))
          \<and> time (pomodoro (resetTimer s)) = modeDuration (nextMode (mode (pomodoro s)))
          \<and> effects (resetTimer s) = effects s)
       \<and> modeDuration ''study'' = 1500 \<and> modeDuration ''short'' = 300
       \<and> modeDuration ''long'' = 900"
proof -
  have "labelInv (initialState l) False"
    using assms(1) by (simp add: labelInv_def initialState_def)
  then have "labelInv s (completedSince isStart es (initialState l) False)"
    unfolding assms(3) using assms(2) by (intro labelInv_run)
  then have label:
    "(resetBtnText s = ''Next Mode'') = completedSince isStart es (initialState l) False"
    by (simp add: labelInv_def)
  show ?thesis
    unfolding label [symmetric]
    by (simp add: resetTimer_def pauseTimer_proj setPomodoroMode_proj handleTimerEnd_proj
        modeDuration_def Let_def)
qed

theorem C7_resetTimer_after_run_witness:
  "''Reset'' \<noteq> ''Next Mode''
   \<and> list_all pageLabelOk [StartTimer, Tick, PauseTimer]
   \<and> \<not> completedSince isStart [StartTimer, Tick, PauseTimer] (initialState ''Reset'') False
   \<and> time (pomodoro (run [StartTimer, Tick, PauseTimer] (initialState ''Reset''))) = 1499
   \<and> mode (pomodoro (resetTimer (pauseTimer
        (run [StartTimer, Tick, PauseTimer] (initialState ''Reset''))))) = ''study''
   \<and> time (pomodoro (resetTimer (pauseTimer
        (run [StartTimer, Tick, PauseTimer] (initialState ''Reset''))))) = 1500
   \<and> list_all pageLabelOk (StartTimer # replicate 1500 Tick)
   \<and> completedSince isStart (StartTimer # replicate 1500 Tick) (initialState ''Reset'') False
   \<and> mode (pomodoro (run (StartTimer # replicate 1500 Tick) (initialState ''Reset''))) = ''short''
   \<and> mode (pomodoro (resetTimer
        (run (StartTimer # replicate 1500 Tick) (initialState ''Reset'')))) = ''study''
   \<and> effects (resetTimer (run (StartTimer # replicate 1500 Tick) (initialState ''Reset''))) =
       effects (run (StartTimer # replicate 1500 Tick) (initialState ''Reset''))"
proof -
  let ?a = "[StartTimer, Tick, PauseTimer]"
  let ?b = "StartTimer # replicate 1500 Tick"
  have l: "''Reset'' \<noteq> ''Next Mode''"
    by simp
  have a1: "list_all pageLabelOk ?a"
    by simp
  have a2: "\<not> completedSince isStart ?a (initialState ''Reset'') False"
    by code_simp
  have a3: "time (pomodoro (run ?a (initialState ''Reset''))) = 1499"
    and a4: "mode (pomodoro (run ?a (initialState ''Reset''))) = ''study''"
    by code_simp+
  have b1: "list_all pageLabelOk ?b"
    by code_simp
  have b2: "completedSince isStart ?b (initialState ''Reset'') False"
    by code_simp
  have b3: "mode (pomodoro (run ?b (initialState ''Reset''))) = ''short''"
    by code_simp
  show ?thesis
    using l a1 a2 a3 a4 b1 b2 b3
      C7_resetTimer_after_run [OF l a1 refl] C7_resetTimer_after_run [OF l b1 refl]
    by (simp add: modeDuration_def nextMode_def)
qed

section \<open>Tasks and the streak\<close>

text \<open>
  Claim C8. Toggling a completed task back to pending leaves the whole streak state
  unchanged and does not run the streak update. Toggling a pending task to completed runs
  the streak update once, on the state with the task marked completed: the streak
  afterwards is the one a single \<open>recordCompletion\<close> yields.
\<close>

theorem C8_toggleTaskStatus_streak:
  assumes "find (\<lambda>t. task_id t = i) (tasks s) = Some tsk"
  shows "(status tsk = ''completed'' \<longrightarrow>
            streak (toggleTaskStatus c v i s) = streak s
          \<and> streakUpdates (toggleTaskStatus c v i s) = streakUpdates s)
       \<and> (status tsk = ''pending'' \<longrightarrow>
            toggleTaskStatus c v i s =
              showModal ''Status Update''
                (''Task '' @ dquote @ title tsk @ dquote @ '' marked as completed.'')
                (renderTasks v (saveState (recordCompletion c
                   (s\<lparr>tasks := mapFirst (\<lambda>t. task_id t = i)
                                   (\<lambda>t. t\<lparr>status := ''completed''\<rparr>) (tasks s)\<rparr>))))
          \<and> streak (toggleTaskStatus c v i s) = streak (recordCompletion c s)
          \<and> streakUpdates (toggleTaskStatus c v i s) = streakUpdates s + 1)"
proof (intro conjI impI)
  assume "status tsk = ''completed''"
  then have "toggleTaskStatus c v i s =
      showModal ''Status Update''
        (''Task '' @ dquote @ title tsk @ dquote @ '' marked as pending.'')
        (renderTasks v (saveState (s\<lparr>tasks := mapFirst (\<lambda>t. task_id t = i)
            (\<lambda>t. t\<lparr>status := ''pending''\<rparr>) (tasks s)\<rparr>)))"
    using assms by (simp add: toggleTaskStatus_def Let_def)
  then show "streak (toggleTaskStatus c v i s) = streak s"
    and "streakUpdates (toggleTaskStatus c v i s) = streakUpdates s"
    by (simp_all add: showModal_def renderTasks_frame saveState_def streakUpdates_def
        isStatStreak_def)
next
  let ?s1 = "s\<lparr>tasks := mapFirst (\<lambda>t. task_id t = i)
            (\<lambda>t. t\<lparr>status := ''completed''\<rparr>) (tasks s)\<rparr>"
  assume "status tsk = ''pending''"
  then show eq: "toggleTaskStatus c v i s =
      showModal ''Status Update''
        (''Task '' @ dquote @ title tsk @ dquote @ '' marked as completed.'')
        (renderTasks v (saveState (recordCompletion c ?s1)))"
    using assms by (simp add: toggleTaskStatus_def recordCompletion_def Let_def)
  have "streak (toggleTaskStatus c v i s) = streak (recordCompletion c ?s1)"
    unfolding eq by (simp add: showModal_def renderTasks_frame saveState_def)
  also have "\<dots> = streak (recordCompletion c s)"
    unfolding recordCompletion_def by (intro streak_updateStreak_cong) simp
  finally show "streak (toggleTaskStatus c v i s) = streak (recordCompletion c s)" .
  have "streakUpdates (toggleTaskStatus c v i s) = streakUpdates (recordCompletion c ?s1)"
    unfolding eq
    by (simp add: showModal_def renderTasks_frame saveState_def streakUpdates_def
        isStatStreak_def)
  also have "\<dots> = streakUpdates ?s1 + 1"
    unfolding recordCompletion_def by (rule streakUpdates_updateStreak)
  also have "\<dots> = streakUpdates s + 1"
    by (simp add: streakUpdates_def)
  finally show "streakUpdates (toggleTaskStatus c v i s) = streakUpdates s + 1" .
qed

theorem C8_toggleTaskStatus_streak_witness:
  "find (\<lambda>t. task_id t = 1)
        (tasks ((exampleState 3 (Some ''2024-03-09'') None)\<lparr>tasks := [exampleTask ''completed'']\<rparr>))
     = Some (exampleTask ''completed'')
   \<and> status (exampleTask ''completed'') = ''completed''
   \<and> streak (toggleTaskStatus exampleClock plainView 1
        ((exampleState 3 (Some ''2024-03-09'') None)\<lparr>tasks := [exampleTask ''completed'']\<rparr>))
       = \<lparr>count = 3, lastCompletionDate = Some ''2024-03-09'', lastRewardedDay = None\<rparr>
   \<and> find (\<lambda>t. task_id t = 1)
        (tasks ((exampleState 3 (Some ''2024-03-09'') None)\<lparr>tasks := [exampleTask ''pending'']\<rparr>))
     = Some (exampleTask ''pending'')
   \<and> status (exampleTask ''pending'') = ''pending''
   \<and> count (streak (toggleTaskStatus exampleClock plainView 1
        ((exampleState 3 (Some ''2024-03-09'') None)\<lparr>tasks := [exampleTask ''pending'']\<rparr>))) = 4
   \<and> streakUpdates (toggleTaskStatus exampleClock plainView 1
        ((exampleState 3 (Some ''2024-03-09'') None)\<lparr>tasks := [exampleTask ''pending'']\<rparr>)) = 1"
proof -
  let ?a = "(exampleState 3 (Some ''2024-03-09'') None)\<lparr>tasks := [exampleTask ''completed'']\<rparr>"
  let ?b = "(exampleState 3 (Some ''2024-03-09'') None)\<lparr>tasks := [exampleTask ''pending'']\<rparr>"
  have a: "find (\<lambda>t. task_id t = 1) (tasks ?a) = Some (exampleTask ''completed'')"
    and b: "find (\<lambda>t. task_id t = 1) (tasks ?b) = Some (exampleTask ''pending'')"
    by (simp_all add: exampleTask_def)
  have sa: "status (exampleTask ''completed'') = ''completed''"
    and sb: "status (exampleTask ''pending'') = ''pending''"
    by (simp_all add: exampleTask_def)
  have n: "count (streak (recordCompletion exampleClock ?b)) = 4"
    by (simp add: recordCompletion_def streak_updateStreak_True exampleState_def
        exampleClock_def)
  have u: "streakUpdates ?b = 0"
    by (simp add: streakUpdates_def exampleState_def initialState_def)
  have sta: "streak ?a =
      \<lparr>count = 3, lastCompletionDate = Some ''2024-03-09'', lastRewardedDay = None\<rparr>"
    by (simp add: exampleState_def)
  have "streak (toggleTaskStatus exampleClock plainView 1 ?a) = streak ?a"
    using C8_toggleTaskStatus_streak [OF a, of exampleClock plainView] sa by blast
  then have r1: "streak (toggleTaskStatus exampleClock plainView 1 ?a) =
      \<lparr>count = 3, lastCompletionDate = Some ''2024-03-09'', lastRewardedDay = None\<rparr>"
    by (simp only: sta)
  have "streak (toggleTaskStatus exampleClock plainView 1 ?b) =
          streak (recordCompletion exampleClock ?b)"
    and "streakUpdates (toggleTaskStatus exampleClock plainView 1 ?b) = streakUpdates ?b + 1"
    using C8_toggleTaskStatus_streak [OF b, of exampleClock plainView] sb by blast+
  then have r2: "count (streak (toggleTaskStatus exampleClock plainView 1 ?b)) = 4"
    and r3: "streakUpdates (toggleTaskStatus exampleClock plainView 1 ?b) = 1"
    by (simp_all only: n u)
  show ?thesis
    by (intro conjI) (rule a sa r1 b sb r2 r3)+
qed

text \<open>
  The status modal is the last thing the handler shows: \<^verbatim>\<open>showModal\<close> writes to the one modal
  of the page, so a milestone modal shown by the streak update in the same call is replaced
  by it.
\<close>

lemma toggleTaskStatus_last_effect:
  assumes "find (\<lambda>t. task_id t = i) (tasks s) = Some tsk"
  shows "last (effects (toggleTaskStatus c v i s)) =
           ShowModal ''Status Update''
             (''Task '' @ dquote @ title tsk @ dquote @ '' marked as ''
              @ (if status tsk = ''pending'' then ''completed'' else ''pending'') @ ''.'')"
  using assms by (simp add: toggleTaskStatus_def showModal_def Let_def)

section \<open>The streak invariant\<close>

lemma streakInvariant_recordCompletion:
  "0 \<le> count (streak s) \<Longrightarrow> streakInvariant (streak s) \<Longrightarrow>
   streakInvariant (streak (recordCompletion c s)) \<and> 0 \<le> count (streak (recordCompletion c s))"
  by (auto simp add: streakInvariant_def recordCompletion_def streak_updateStreak_True Let_def)

lemma streakInvariant_reconcileOnLoad:
  "0 \<le> count (streak s) \<Longrightarrow> streakInvariant (streak s) \<Longrightarrow>
   streakInvariant (streak (reconcileOnLoad c s)) \<and> 0 \<le> count (streak (reconcileOnLoad c s))"
  by (auto simp add: streakInvariant_def reconcileOnLoad_def streak_updateStreak_False)

lemma goodStreak_updateStreak:
  "goodStreak (streak s) \<Longrightarrow> goodStreak (streak (updateStreak c b s))"
  using streakInvariant_recordCompletion [of s c] streakInvariant_reconcileOnLoad [of s c]
  by (cases b) (simp_all add: goodStreak_def recordCompletion_def reconcileOnLoad_def)

lemma goodStreak_initialStreak:
  "goodStreak initialStreak"
  by (simp add: goodStreak_def streakInvariant_def initialStreak_def)

subsection \<open>What is in storage\<close>

lemma stored_simps:
  "storedTasks (saveState s) = tasks s"
  "storedStreak (saveState s) = streak s"
  "storedTasks (showModal t b s) = storedTasks s"
  "storedStreak (showModal t b s) = storedStreak s"
  "storedTasks (renderTasks v s) = storedTasks s"
  "storedStreak (renderTasks v s) = storedStreak s"
  "tasks (saveState s) = tasks s"
  "streak (saveState s) = streak s"
  "tasks (showModal t b s) = tasks s"
  "streak (showModal t b s) = streak s"
  "storedTasks (s\<lparr>tasks := ts\<rparr>) = storedTasks s"
  "storedStreak (s\<lparr>tasks := ts\<rparr>) = storedStreak s"
  by (simp_all add: storedTasks_def storedStreak_def saveState_def showModal_def renderTasks_def)

lemma stored_updateStreak:
  "storedTasks (updateStreak c b s) = tasks s"
  "storedStreak (updateStreak c b s) = streak (updateStreak c b s)"
  by (simp_all add: storedTasks_def storedStreak_def updateStreak_def saveState_def
      checkStreakMilestones_cases Let_def split: prod.splits)

lemma stored_pomodoro_handlers:
  "storedTasks (pauseTimer s) = storedTasks s" "storedStreak (pauseTimer s) = storedStreak s"
  "storedTasks (setPomodoroMode m s) = storedTasks s"
  "storedStreak (setPomodoroMode m s) = storedStreak s"
  "storedTasks (startTimer s) = storedTasks s" "storedStreak (startTimer s) = storedStreak s"
  "storedTasks (resetTimer s) = storedTasks s" "storedStreak (resetTimer s) = storedStreak s"
  "storedTasks (tick s) = storedTasks s" "storedStreak (tick s) = storedStreak s"
  by (simp_all add: storedTasks_def storedStreak_def pomodoro_handlers_frame)

lemma stored_other_handlers:
  "storedTasks (saveSettings ty f s) = tasks s"
  "storedStreak (saveSettings ty f s) = streak s"
  "storedTasks (saveNotes tx s) = tasks s"
  "storedStreak (saveNotes tx s) = streak s"
  "storedTasks (toggleTheme s) = tasks s"
  "storedStreak (toggleTheme s) = streak s"
  "storedTasks (submitGoalForm subj h s) = storedTasks s
     \<or> storedTasks (submitGoalForm subj h s) = tasks s"
  "storedStreak (submitGoalForm subj h s) = storedStreak s
     \<or> storedStreak (submitGoalForm subj h s) = streak s"
  "storedTasks (mockLogProgress subj n s) = storedTasks s
     \<or> storedTasks (mockLogProgress subj n s) = tasks s"
  "storedStreak (mockLogProgress subj n s) = storedStreak s
     \<or> storedStreak (mockLogProgress subj n s) = streak s"
  by (simp_all add: storedTasks_def storedStreak_def saveSettings_def saveNotes_def
      toggleTheme_def submitGoalForm_def mockLogProgress_def saveState_def showModal_def
      pomodoro_handlers_frame Let_def split: option.splits)

lemma stored_task_handlers:
  "storedStreak (submitTaskForm v f s) = streak s"
  "storedStreak (deleteTask v i s) = streak s"
  "storedStreak (toggleTaskStatus c v i s) = streak (toggleTaskStatus c v i s)
     \<or> toggleTaskStatus c v i s = s"
  by (simp_all add: storedStreak_def submitTaskForm_def deleteTask_def toggleTaskStatus_def
      renderTasks_def saveState_def showModal_def Let_def
      split: option.splits id_field.splits)

lemma loadState_fresh:
  "tasks (loadState ((initialState l)\<lparr>storage := storage s, effects := effects s\<rparr>)) =
     storedTasks s"
  "streak (loadState ((initialState l)\<lparr>storage := storage s, effects := effects s\<rparr>)) =
     storedStreak s"
  by (simp_all add: loadState_def initialState_def storedTasks_def storedStreak_def
      split: option.splits)

lemma initializeApp_tasks:
  "tasks (initializeApp c l v s) = tasks (renderTasks v (s\<lparr>tasks := storedTasks s\<rparr>))"
  "storedTasks (initializeApp c l v s) = storedTasks s"
  by (simp_all add: initializeApp_def Let_def stored_simps stored_updateStreak frame
      pomodoro_handlers_frame loadState_fresh renderTasks_def)

lemma initializeApp_streak:
  "streak (initializeApp c l v s) = streak (updateStreak c False (s\<lparr>streak := storedStreak s\<rparr>))"
  "storedStreak (initializeApp c l v s) = streak (initializeApp c l v s)"
proof -
  let ?s2 = "setPomodoroMode ''study''
               (loadState ((initialState l)\<lparr>storage := storage s, effects := effects s\<rparr>))"
  have "streak ?s2 = streak (s\<lparr>streak := storedStreak s\<rparr>)"
    by (simp add: pomodoro_handlers_frame loadState_fresh)
  then have "streak (updateStreak c False ?s2) =
        streak (updateStreak c False (s\<lparr>streak := storedStreak s\<rparr>))"
    by (rule streak_updateStreak_cong)
  then show "streak (initializeApp c l v s) =
        streak (updateStreak c False (s\<lparr>streak := storedStreak s\<rparr>))"
    by (simp add: initializeApp_def Let_def renderTasks_frame)
  show "storedStreak (initializeApp c l v s) = streak (initializeApp c l v s)"
    by (simp add: initializeApp_def Let_def renderTasks_frame stored_simps stored_updateStreak)
qed

lemma streak_toggleTaskStatus:
  "streak (toggleTaskStatus c v i s) = streak s
     \<or> streak (toggleTaskStatus c v i s) = streak (updateStreak c True s)"
proof (cases "find (\<lambda>t. task_id t = i) (tasks s)")
  case None
  then show ?thesis by (simp add: toggleTaskStatus_def)
next
  case (Some tsk)
  have "streak (updateStreak c True (s\<lparr>tasks := ts\<rparr>)) = streak (updateStreak c True s)" for ts
    by (intro streak_updateStreak_cong) simp
  then show ?thesis using Some
    by (simp add: toggleTaskStatus_def renderTasks_frame saveState_def showModal_def Let_def)
qed

subsection \<open>Every event keeps the streak well formed\<close>

lemma streakOk_step:
  assumes "streakOk s"
  shows "streakOk (step e s)"
proof (cases e)
  case (InitializeApp c l v)
  have "goodStreak (streak (s\<lparr>streak := storedStreak s\<rparr>))"
    using assms by (simp add: streakOk_def)
  then have "goodStreak (streak (updateStreak c False (s\<lparr>streak := storedStreak s\<rparr>)))"
    by (rule goodStreak_updateStreak)
  then show ?thesis using InitializeApp
    by (simp add: streakOk_def initializeApp_streak)
next
  case (RenderTasks v)
  then show ?thesis using assms
    by (simp add: streakOk_def stored_simps frame)
next
  case (SubmitTaskForm v f)
  then show ?thesis using assms
    by (simp add: streakOk_def stored_task_handlers frame)
next
  case (DeleteTask v i)
  then show ?thesis using assms
    by (simp add: streakOk_def stored_task_handlers frame)
next
  case (ToggleTaskStatus c v i)
  have "goodStreak (streak (toggleTaskStatus c v i s))"
    using assms streak_toggleTaskStatus [of c v i s] goodStreak_updateStreak [of s c True]
    by (auto simp add: streakOk_def)
  then show ?thesis using ToggleTaskStatus assms stored_task_handlers(3) [of c v i s]
    by (auto simp add: streakOk_def)
next
  case (SaveSettings ty f)
  then show ?thesis using assms
    by (simp add: streakOk_def stored_other_handlers frame)
next
  case (SubmitGoalForm subj h)
  then show ?thesis using assms stored_other_handlers(8) [of subj h s]
    by (auto simp add: streakOk_def frame)
next
  case (MockLogProgress subj h)
  then show ?thesis using assms stored_other_handlers(10) [of subj h s]
    by (auto simp add: streakOk_def frame)
next
  case (SaveNotes tx)
  then show ?thesis using assms
    by (simp add: streakOk_def stored_other_handlers frame)
next
  case ToggleTheme
  then show ?thesis using assms
    by (simp add: streakOk_def stored_other_handlers toggleTheme_frame)
qed (use assms in \<open>simp_all add: streakOk_def pomodoro_handlers_frame stored_pomodoro_handlers\<close>)

lemma streakOk_run:
  "streakOk s \<Longrightarrow> streakOk (run es s)"
proof (induction es arbitrary: s)
  case Nil
  then show ?case by (simp add: run_def)
next
  case (Cons e es)
  have "streakOk (step e s)"
    using Cons.prems by (rule streakOk_step)
  then have "streakOk (run es (step e s))"
    by (rule Cons.IH)
  then show ?case by (simp add: run_def)
qed

lemma streakOk_initialState:
  "streakOk (initialState l)"
  by (simp add: streakOk_def storedStreak_def initialState_def goodStreak_initialStreak)

text \<open>
  Claim C5. The count is zero exactly when there is no last completion date: this holds
  of the initial streak, both streak operations preserve it on a streak with a
  non-negative count, and it holds (with a non-negative count) in every state that a run
  of the application reaches from its initial state.
\<close>

theorem C5_streak_invariant_holds:
  "streakInvariant initialStreak
   \<and> (0 \<le> count (streak s) \<and> streakInvariant (streak s) \<longrightarrow>
        streakInvariant (streak (recordCompletion c s))
      \<and> streakInvariant (streak (reconcileOnLoad c s)))
   \<and> streakInvariant (streak (run es (initialState l)))
   \<and> 0 \<le> count (streak (run es (initialState l)))"
proof -
  have "streakOk (run es (initialState l))"
    using streakOk_initialState by (rule streakOk_run)
  then show ?thesis
    using streakInvariant_recordCompletion [of s c] streakInvariant_reconcileOnLoad [of s c]
      goodStreak_initialStreak
    by (simp add: streakOk_def goodStreak_def)
qed

theorem C5_streak_invariant_holds_witness:
  "(0::int) \<le> count (streak (exampleState 3 (Some ''2024-03-07'') None))
   \<and> streakInvariant (streak (exampleState 3 (Some ''2024-03-07'') None))
   \<and> streakInvariant (streak (recordCompletion exampleClock
        (exampleState 3 (Some ''2024-03-07'') None)))
   \<and> streakInvariant (streak (reconcileOnLoad exampleClock
        (exampleState 3 (Some ''2024-03-07'') None)))
   \<and> streakInvariant (streak (run
        [SubmitTaskForm plainView (exampleForm EmptyField),
         ToggleTaskStatus exampleClock plainView 1,
         InitializeApp exampleClock ''Reset'' plainView]
        (initialState ''Reset'')))"
proof -
  have h: "(0::int) \<le> count (streak (exampleState 3 (Some ''2024-03-07'') None))
      \<and> streakInvariant (streak (exampleState 3 (Some ''2024-03-07'') None))"
    by (simp add: exampleState_def streakInvariant_def)
  show ?thesis
    using h C5_streak_invariant_holds
      [of "exampleState 3 (Some ''2024-03-07'') None" exampleClock
          "[SubmitTaskForm plainView (exampleForm EmptyField),
            ToggleTaskStatus exampleClock plainView 1,
            InitializeApp exampleClock ''Reset'' plainView]" "''Reset''"]
    by simp
qed

section \<open>Task ids\<close>

lemma map_task_id_mapFirst:
  "(\<And>t. task_id (f t) = task_id t) \<Longrightarrow> map task_id (mapFirst P f ts) = map task_id ts"
  by (induction ts) simp_all

lemma image_mset_ids_mapFirst:
  assumes "\<And>t. task_id (f t) = task_id t"
  shows "image_mset task_id (mset (mapFirst P f ts)) = image_mset task_id (mset ts)"
proof -
  have "mset (map task_id (mapFirst P f ts)) = mset (map task_id ts)"
    using assms by (simp only: map_task_id_mapFirst)
  then show ?thesis by simp
qed

lemma getNextTaskId_fresh:
  "getNextTaskId s \<notin> set (map task_id (tasks s))"
proof (cases "tasks s = []")
  case True
  then show ?thesis by simp
next
  case False
  have "x < getNextTaskId s" if "x \<in> set (map task_id (tasks s))" for x
  proof -
    have "x \<le> Max (set (map task_id (tasks s)))"
      using that by (intro Max_ge) simp_all
    then show ?thesis using False by (simp add: getNextTaskId_def)
  qed
  then show ?thesis by blast
qed

lemma distinct_ids_sortTasks:
  assumes "sortOk v"
  shows "distinct (map task_id (sortTasks v ts)) = distinct (map task_id ts)"
proof -
  have "mset (map task_id (sortTasks v ts)) = mset (map task_id ts)"
    using assms by (simp add: sortOk_def)
  then show ?thesis by (rule mset_eq_imp_distinct_iff)
qed

lemma distinct_ids_renderTasks:
  "sortOk v \<Longrightarrow>
   distinct (map task_id (tasks (renderTasks v s))) = distinct (map task_id (tasks s))"
  by (simp add: renderTasks_def distinct_ids_sortTasks)

lemma tasksOk_step:
  assumes "viewOk e" and "tasksOk s"
  shows "tasksOk (step e s)"
proof (cases e)
  case (InitializeApp c l v)
  then show ?thesis using assms
    by (simp add: tasksOk_def initializeApp_tasks distinct_ids_renderTasks)
next
  case (RenderTasks v)
  then show ?thesis using assms
    by (simp add: tasksOk_def distinct_ids_renderTasks stored_simps)
next
  case (SubmitTaskForm v f)
  then show ?thesis using assms getNextTaskId_fresh [of s]
    by (cases "f_taskId f")
       (auto simp add: tasksOk_def submitTaskForm_def distinct_ids_renderTasks stored_simps
        map_task_id_mapFirst Let_def split: option.splits)
next
  case (DeleteTask v i)
  then show ?thesis using assms
    by (simp add: tasksOk_def deleteTask_def distinct_ids_renderTasks stored_simps
        distinct_map_filter Let_def)
next
  case (ToggleTaskStatus c v i)
  then show ?thesis using assms
    by (auto simp add: tasksOk_def toggleTaskStatus_def distinct_ids_renderTasks stored_simps
        stored_updateStreak frame map_task_id_mapFirst Let_def split: option.splits)
next
  case (SaveSettings ty f)
  then show ?thesis using assms
    by (simp add: tasksOk_def stored_other_handlers frame)
next
  case (SubmitGoalForm subj h)
  then show ?thesis using assms stored_other_handlers(7) [of subj h s]
    by (auto simp add: tasksOk_def frame)
next
  case (MockLogProgress subj h)
  then show ?thesis using assms stored_other_handlers(9) [of subj h s]
    by (auto simp add: tasksOk_def frame)
next
  case (SaveNotes tx)
  then show ?thesis using assms
    by (simp add: tasksOk_def stored_other_handlers frame)
next
  case ToggleTheme
  then show ?thesis using assms
    by (simp add: tasksOk_def stored_other_handlers toggleTheme_frame)
qed (use assms in \<open>simp_all add: tasksOk_def pomodoro_handlers_frame stored_pomodoro_handlers\<close>)

lemma tasksOk_run:
  "list_all viewOk es \<Longrightarrow> tasksOk s \<Longrightarrow> tasksOk (run es s)"
proof (induction es arbitrary: s)
  case Nil
  then show ?case by (simp add: run_def)
next
  case (Cons e es)
  have "tasksOk (step e s)"
    using Cons.prems by (intro tasksOk_step) simp_all
  then have "tasksOk (run es (step e s))"
    using Cons.prems by (intro Cons.IH) simp_all
  then show ?case by (simp add: run_def)
qed

text \<open>
  Claim C10. The next task id is 1 for the empty list and one more than the largest id
  otherwise, so it is not the id of any task in the list. In every state that a run of the
  application reaches from its initial state the task ids are pairwise distinct, whatever
  permutation the sort of the task view produces. Adding a task adds exactly the next id;
  editing leaves the ids as they are; deleting leaves exactly the tasks with another id,
  each unchanged.
\<close>

theorem C10_task_ids_distinct:
  "(tasks s = [] \<longrightarrow> getNextTaskId s = 1)
   \<and> (tasks s \<noteq> [] \<longrightarrow> getNextTaskId s = Max (set (map task_id (tasks s))) + 1)
   \<and> getNextTaskId s \<notin> set (map task_id (tasks s))
   \<and> (list_all viewOk es \<longrightarrow> distinct (map task_id (tasks (run es (initialState l)))))
   \<and> (sortOk v \<and> f_taskId f = EmptyField \<longrightarrow>
        mset (map task_id (tasks (submitTaskForm v f s))) =
          add_mset (getNextTaskId s) (mset (map task_id (tasks s))))
   \<and> (sortOk v \<and> f_taskId f \<noteq> EmptyField \<longrightarrow>
        mset (map task_id (tasks (submitTaskForm v f s))) = mset (map task_id (tasks s)))
   \<and> (sortOk v \<longrightarrow>
        mset (tasks (deleteTask v i s)) = filter_mset (\<lambda>t. task_id t \<noteq> i) (mset (tasks s)))"
proof -
  have all: "mset (tasks (renderTasks v s')) = mset (tasks s')" if "sortOk v" for s'
    using that by (simp add: renderTasks_def sortOk_def)
  have "tasksOk (initialState l)"
    by (simp add: tasksOk_def storedTasks_def initialState_def)
  then have run: "list_all viewOk es \<longrightarrow> distinct (map task_id (tasks (run es (initialState l))))"
    using tasksOk_run [of es "initialState l"] by (simp add: tasksOk_def)
  have add: "mset (map task_id (tasks (submitTaskForm v f s))) =
          add_mset (getNextTaskId s) (mset (map task_id (tasks s)))"
    if "sortOk v" and "f_taskId f = EmptyField"
    using that by (simp add: submitTaskForm_def all stored_simps Let_def)
  have edit: "mset (map task_id (tasks (submitTaskForm v f s))) = mset (map task_id (tasks s))"
    if "sortOk v" and "f_taskId f \<noteq> EmptyField"
    using that
    by (cases "f_taskId f")
       (simp_all add: submitTaskForm_def all stored_simps image_mset_ids_mapFirst Let_def
        split: option.splits)
  have del: "mset (tasks (deleteTask v i s)) = filter_mset (\<lambda>t. task_id t \<noteq> i) (mset (tasks s))"
    if "sortOk v"
    using that by (simp add: deleteTask_def all stored_simps Let_def)
  show ?thesis
    using run add edit del getNextTaskId_fresh [of s]
    by (simp add: getNextTaskId_def)
qed

theorem C10_task_ids_distinct_witness:
  "sortOk plainView
   \<and> list_all viewOk
        [SubmitTaskForm plainView (exampleForm EmptyField),
         SubmitTaskForm plainView (exampleForm EmptyField),
         SubmitTaskForm plainView (exampleForm (Parsed 1)),
         DeleteTask plainView 1,
         SubmitTaskForm plainView (exampleForm EmptyField)]
   \<and> distinct (map task_id (tasks (run
        [SubmitTaskForm plainView (exampleForm EmptyField),
         SubmitTaskForm plainView (exampleForm EmptyField),
         SubmitTaskForm plainView (exampleForm (Parsed 1)),
         DeleteTask plainView 1,
         SubmitTaskForm plainView (exampleForm EmptyField)]
        (initialState ''Reset''))))
   \<and> tasks ((initialState ''Reset'')\<lparr>tasks := [exampleTask ''pending'']\<rparr>) \<noteq> []
   \<and> getNextTaskId ((initialState ''Reset'')\<lparr>tasks := [exampleTask ''pending'']\<rparr>) = 2
   \<and> f_taskId (exampleForm (Parsed 1)) \<noteq> EmptyField
   \<and> mset (map task_id (tasks (submitTaskForm plainView (exampleForm (Parsed 1))
        ((initialState ''Reset'')\<lparr>tasks := [exampleTask ''pending'']\<rparr>)))) = {#1#}
   \<and> f_taskId (exampleForm EmptyField) = EmptyField
   \<and> mset (map task_id (tasks (submitTaskForm plainView (exampleForm EmptyField)
        ((initialState ''Reset'')\<lparr>tasks := [exampleTask ''pending'']\<rparr>)))) = {#2, 1#}
   \<and> mset (tasks (deleteTask plainView 1
        ((initialState ''Reset'')\<lparr>tasks := [exampleTask ''pending'']\<rparr>))) = {#}"
proof -
  let ?es = "[SubmitTaskForm plainView (exampleForm EmptyField),
         SubmitTaskForm plainView (exampleForm EmptyField),
         SubmitTaskForm plainView (exampleForm (Parsed 1)),
         DeleteTask plainView 1,
         SubmitTaskForm plainView (exampleForm EmptyField)]"
  let ?s = "(initialState ''Reset'')\<lparr>tasks := [exampleTask ''pending'']\<rparr>"
  have v: "sortOk plainView"
    by (simp add: sortOk_def plainView_def)
  have es: "list_all viewOk ?es"
    using v by simp
  have ne: "tasks ?s \<noteq> []"
    by simp
  have f1: "f_taskId (exampleForm (Parsed 1)) \<noteq> EmptyField"
    and f2: "f_taskId (exampleForm EmptyField) = EmptyField"
    by (simp_all add: exampleForm_def)
  have ids: "map task_id (tasks ?s) = [1]"
    by (simp add: exampleTask_def)
  have r1: "distinct (map task_id (tasks (run ?es (initialState ''Reset''))))"
    using C10_task_ids_distinct [of ?s ?es "''Reset''"] es by blast
  have "getNextTaskId ?s = Max (set (map task_id (tasks ?s))) + 1"
    using C10_task_ids_distinct [of ?s] ne by blast
  then have r2: "getNextTaskId ?s = 2"
    by (simp only: ids) simp
  have "mset (map task_id (tasks (submitTaskForm plainView (exampleForm (Parsed 1)) ?s))) =
          mset (map task_id (tasks ?s))"
    using C10_task_ids_distinct [of ?s _ _ plainView "exampleForm (Parsed 1)"] v f1 by blast
  then have r3: "mset (map task_id (tasks (submitTaskForm plainView (exampleForm (Parsed 1)) ?s)))
      = {#1#}"
    by (simp only: ids) simp
  have "mset (map task_id (tasks (submitTaskForm plainView (exampleForm EmptyField) ?s))) =
          add_mset (getNextTaskId ?s) (mset (map task_id (tasks ?s)))"
    using C10_task_ids_distinct [of ?s _ _ plainView "exampleForm EmptyField"] v f2 by blast
  then have r4: "mset (map task_id (tasks (submitTaskForm plainView (exampleForm EmptyField) ?s)))
      = {#2, 1#}"
    by (simp only: ids r2) simp
  have "mset (tasks (deleteTask plainView 1 ?s)) =
          filter_mset (\<lambda>t. task_id t \<noteq> 1) (mset (tasks ?s))"
    using C10_task_ids_distinct [of ?s _ _ plainView _ 1] v by blast
  then have r5: "mset (tasks (deleteTask plainView 1 ?s)) = {#}"
    by (simp add: exampleTask_def)
  show ?thesis
    by (intro conjI) (rule v es r1 ne r2 f1 r3 f2 r4 r5)+
qed

section \<open>Rejected input\<close>

lemma trim_examples:
  "trim ''  Kavi '' = ''Kavi''"
  "trim ''   '' = []"
  "trim [CHR 0xC2, CHR 0xA0] = []"
  "trim [CHR 0x09, CHR 0xE2, CHR 0x80, CHR 0xA8, CHR 0xE3, CHR 0x80, CHR 0x80, CHR 0xEF, CHR 0xBB,
         CHR 0xBF, CHR 0x20] = []"
  "trim [CHR 0xE2, CHR 0x82, CHR 0xA0] = [CHR 0xE2, CHR 0x82, CHR 0xA0]"
  by code_simp+

text \<open>
  Input that is rejected changes nothing: the goal form with hours that are not positive or
  not a number leaves the whole state as it is, and a user name that is empty after
  trimming leaves every field of the state in memory as it is, shows the error modal and
  saves the unchanged state.
\<close>

lemma rejected_input_unchanged:
  "(h \<le> 0 \<longrightarrow> submitGoalForm subj (Some h) s = s)
   \<and> submitGoalForm subj None s = s
   \<and> (trim (userNameInput f) = [] \<longrightarrow>
        userName (saveSettings ''name'' f s) = userName s
      \<and> (saveSettings ''name'' f s)\<lparr>storage := storage s, effects := effects s\<rparr> = s
      \<and> effects (saveSettings ''name'' f s) =
          effects s @ [ShowModal ''Error'' ''Please enter a valid name.'', SaveState])"
  by (simp add: submitGoalForm_def saveSettings_def showModal_def saveState_def)

text \<open>
  Claim C9: invalid input is rejected with a message the user sees and changes no state,
  both for goal hours that are not positive and for an empty user name. The goal form
  does not show the message. Submitted with 0 hours it returns with the state as it was
  and no effect at all, where the two other handlers that reject input show the error
  modal: \<^verbatim>\<open>saveSettings\<close> on a name of spaces (or of no-break spaces), and \<^verbatim>\<open>mockLogProgress\<close> on
  a subject without a goal.
\<close>

theorem C9_goal_form_shows_no_message:
  "submitGoalForm ''Math'' (Some 0) (initialState ''Reset'') = initialState ''Reset''
   \<and> effects (submitGoalForm ''Math'' (Some 0) (initialState ''Reset'')) = []
   \<and> modalsShown (submitGoalForm ''Math'' (Some 0) (initialState ''Reset'')) = 0
   \<and> effects (saveSettings ''name''
        \<lparr>userNameInput = ''   '', studentMajor = [], studentLevel = []\<rparr>
        (initialState ''Reset'')) =
       [ShowModal ''Error'' ''Please enter a valid name.'', SaveState]
   \<and> userName (saveSettings ''name''
        \<lparr>userNameInput = ''   '', studentMajor = [], studentLevel = []\<rparr>
        ((initialState ''Reset'')\<lparr>userName := ''Kavi''\<rparr>)) = ''Kavi''
   \<and> effects (saveSettings ''name''
        \<lparr>userNameInput = [CHR 0xC2, CHR 0xA0], studentMajor = [], studentLevel = []\<rparr>
        (initialState ''Reset'')) =
       [ShowModal ''Error'' ''Please enter a valid name.'', SaveState]
   \<and> effects (mockLogProgress ''Math'' 2 (initialState ''Reset'')) =
       [ShowModal ''Error'' ''Please set a goal for Math first.'']"
proof -
  have t1: "trim ''   '' = []" and t2: "trim [CHR 0xC2, CHR 0xA0] = []"
    by code_simp+
  have g: "submitGoalForm ''Math'' (Some 0) (initialState ''Reset'') = initialState ''Reset''"
    by (simp add: submitGoalForm_def)
  have e: "effects (initialState ''Reset'') = []"
    by (simp add: initialState_def)
  have m: "modalsShown (initialState ''Reset'') = 0"
    by (simp add: modalsShown_def initialState_def)
  have n1: "effects (saveSettings ''name''
        \<lparr>userNameInput = ''   '', studentMajor = [], studentLevel = []\<rparr>
        (initialState ''Reset'')) =
       [ShowModal ''Error'' ''Please enter a valid name.'', SaveState]"
    using t1 by (simp add: saveSettings_def showModal_def saveState_def initialState_def)
  have n2: "userName (saveSettings ''name''
        \<lparr>userNameInput = ''   '', studentMajor = [], studentLevel = []\<rparr>
        ((initialState ''Reset'')\<lparr>userName := ''Kavi''\<rparr>)) = ''Kavi''"
    using t1 by (simp add: saveSettings_def showModal_def saveState_def)
  have n3: "effects (saveSettings ''name''
        \<lparr>userNameInput = [CHR 0xC2, CHR 0xA0], studentMajor = [], studentLevel = []\<rparr>
        (initialState ''Reset'')) =
       [ShowModal ''Error'' ''Please enter a valid name.'', SaveState]"
    using t2 by (simp add: saveSettings_def showModal_def saveState_def initialState_def)
  have p: "effects (mockLogProgress ''Math'' 2 (initialState ''Reset'')) =
       [ShowModal ''Error'' ''Please set a goal for Math first.'']"
    by (simp add: mockLogProgress_def showModal_def initialState_def)
  show ?thesis
    by (intro conjI) (simp_all only: g e m n1 n2 n3 p)
qed

section \<open>Date strings\<close>

text \<open>
  The streak compares dates as strings. On the strings of calendar dates the order of
  strings is the order of dates, so \<^verbatim>\<open>lastDate < yesterdayString\<close> says that the last
  completion is strictly earlier than yesterday.
\<close>

lemma of_char_digit: "x < 10 \<Longrightarrow> (of_char (char_of (48 + x :: nat) :: char) :: nat) = 48 + x"
  by simp

lemma digit_char_less:
  assumes "x < 10" and "y < 10"
  shows "((char_of (48 + x) :: char) < char_of (48 + y)) = ((x::nat) < y)"
  unfolding less_char_def of_char_digit [OF assms(1)] of_char_digit [OF assms(2)] by simp

lemma digit_char_eq:
  assumes "x < 10" and "y < 10"
  shows "((char_of (48 + x) :: char) = char_of (48 + y)) = ((x::nat) = y)"
proof
  assume "(char_of (48 + x) :: char) = char_of (48 + y)"
  then have "(of_char (char_of (48 + x) :: char) :: nat) = of_char (char_of (48 + y) :: char)"
    by (rule arg_cong)
  then show "x = y"
    unfolding of_char_digit [OF assms(1)] of_char_digit [OF assms(2)] by simp
qed simp

lemma digits_less:
  fixes qa ra qb rb :: nat
  assumes "ra < 10" and "rb < 10"
  shows "(qa < qb \<or> qa = qb \<and> ra < rb) = (10 * qa + ra < 10 * qb + rb)"
  using assms by arith

lemma divmod_less:
  "((a::nat) div 10 < b div 10 \<or> a div 10 = b div 10 \<and> a mod 10 < b mod 10) = (a < b)"
  using digits_less [of "a mod 10" "b mod 10" "a div 10" "b div 10"] by simp

lemma divmod_eq: "((a::nat) div 10 = b div 10 \<and> a mod 10 = b mod 10) = (a = b)"
  by (metis div_mult_mod_eq)


lemma append_less_same_length:
  fixes xs ys :: "'a::linorder list"
  shows "length xs = length ys \<Longrightarrow> (xs @ us < ys @ vs) = (xs < ys \<or> xs = ys \<and> us < vs)"
  by (induction xs ys rule: list_induct2) auto

lemma length_fixedDigits:
  "length (fixedDigits k n) = k"
  by (induction k arbitrary: n) simp_all

lemma fixedDigits_order:
  "a < 10 ^ k \<Longrightarrow> b < 10 ^ k \<Longrightarrow>
   (fixedDigits k a < fixedDigits k b) = (a < b)
   \<and> (fixedDigits k a = fixedDigits k b) = (a = b)"
proof (induction k arbitrary: a b)
  case 0
  then show ?case by simp
next
  case (Suc k)
  have bounds: "a div 10 < 10 ^ k" "b div 10 < 10 ^ k"
    using Suc.prems by (simp_all add: less_mult_imp_div_less mult.commute)
  have ih: "(fixedDigits k (a div 10) < fixedDigits k (b div 10)) = (a div 10 < b div 10)"
    "(fixedDigits k (a div 10) = fixedDigits k (b div 10)) = (a div 10 = b div 10)"
    using Suc.IH [OF bounds] by simp_all
  have less: "(fixedDigits (Suc k) a < fixedDigits (Suc k) b) =
      (a div 10 < b div 10 \<or> a div 10 = b div 10 \<and> a mod 10 < b mod 10)"
    by (simp add: append_less_same_length length_fixedDigits ih digit_char_less)
  have eq: "(fixedDigits (Suc k) a = fixedDigits (Suc k) b) =
      (a div 10 = b div 10 \<and> a mod 10 = b mod 10)"
    by (simp add: ih digit_char_eq)
  show ?case
    by (simp only: less eq divmod_less divmod_eq)
qed

lemma isoDate_less_iff:
  assumes "y < 10000" "y' < 10000" "m < 100" "m' < 100" "d < 100" "d' < 100"
  shows "(isoDate y m d < isoDate y' m' d') =
           (y < y' \<or> y = y' \<and> (m < m' \<or> m = m' \<and> d < d'))"
proof -
  have Y: "(fixedDigits 4 y < fixedDigits 4 y') = (y < y')"
    "(fixedDigits 4 y = fixedDigits 4 y') = (y = y')"
    using fixedDigits_order [of y 4 y'] assms by simp_all
  have M: "(fixedDigits 2 m < fixedDigits 2 m') = (m < m')"
    "(fixedDigits 2 m = fixedDigits 2 m') = (m = m')"
    using fixedDigits_order [of m 2 m'] assms by simp_all
  have D: "(fixedDigits 2 d < fixedDigits 2 d') = (d < d')"
    using fixedDigits_order [of d 2 d'] assms by simp
  have tail: "(''-'' @ us < ''-'' @ vs) = (us < vs)" "(''-'' @ us = ''-'' @ vs) = (us = vs)"
    for us vs :: string
    by simp_all
  have "(isoDate y m d < isoDate y' m' d') =
      (fixedDigits 4 y < fixedDigits 4 y' \<or> fixedDigits 4 y = fixedDigits 4 y'
         \<and> (fixedDigits 2 m < fixedDigits 2 m' \<or> fixedDigits 2 m = fixedDigits 2 m'
              \<and> fixedDigits 2 d < fixedDigits 2 d'))"
    unfolding isoDate_def
    by (simp only: append_less_same_length [OF trans [OF length_fixedDigits length_fixedDigits [symmetric]]] tail)
  then show ?thesis
    by (simp only: Y M D)
qed


text \<open>
  The load-time check on date strings of calendar dates: the streak is reset exactly when
  the last completion date lies before the clock's yesterday.
\<close>

lemma reconcileOnLoad_dates:
  assumes "lastCompletionDate (streak s) = Some (isoDate y m d)"
    and "yesterdayString c = isoDate y' m' d'"
    and "y < 10000" "y' < 10000" "m < 100" "m' < 100" "d < 100" "d' < 100"
  shows "streak (reconcileOnLoad c s) =
           (if y < y' \<or> y = y' \<and> (m < m' \<or> m = m' \<and> d < d')
            then \<lparr>count = 0, lastCompletionDate = None, lastRewardedDay = None\<rparr>
            else streak s)"
proof -
  have "isoDate y m d \<noteq> []"
    by (simp add: isoDate_def)
  then show ?thesis
    using assms isoDate_less_iff [of y y' m m' d d']
    by (simp add: reconcileOnLoad_def streak_updateStreak_False)
qed

end
